theory Spec2Isabelle
  imports Complex_Main "HOL-Library.Sublist"
begin

section \<open>Values shared by the models and the routes\<close>

text \<open>
  Dates are milliseconds since the epoch. The value of \<^verbatim>\<open>new Date()\<close> is the
  argument \<open>now\<close> of the operation that reads the clock. Strings are lists of
  characters; letters are taken to be ASCII wherever case matters.
\<close>

type_synonym date = int

definition upperLetters :: string where
  "upperLetters = ''ABCDEFGHIJKLMNOPQRSTUVWXYZ''"

definition lowerLetters :: string where
  "lowerLetters = ''abcdefghijklmnopqrstuvwxyz''"

definition toLowerChar :: "char \<Rightarrow> char" where
  "toLowerChar c = (case map_of (zip upperLetters lowerLetters) c of Some l \<Rightarrow> l | None \<Rightarrow> c)"

definition toLowerCase :: "string \<Rightarrow> string" where
  "toLowerCase s = map toLowerChar s"

definition isWhiteSpace :: "char \<Rightarrow> bool" where
  "isWhiteSpace c = (c \<in> set [CHR 0x09, CHR 0x0A, CHR 0x0B, CHR 0x0C, CHR 0x0D, CHR '' ''])"

text \<open>\<^verbatim>\<open>String.prototype.trim\<close> and the validator's \<^verbatim>\<open>trim()\<close> sanitizer.\<close>

definition trim :: "string \<Rightarrow> string" where
  "trim s = rev (dropWhile isWhiteSpace (rev (dropWhile isWhiteSpace s)))"

subsection \<open>ObjectId\<close>

text \<open>
  An ObjectId is twelve bytes, held here as its canonical spelling: 24 lower-case
  hexadecimal digits, which is what \<^verbatim>\<open>toString()\<close> prints. Casting a string (a route
  parameter, a reference in a request body) accepts 24 hexadecimal digits in either
  case and yields the same twelve bytes; any other string is a \<^verbatim>\<open>CastError\<close> of kind
  \<^verbatim>\<open>ObjectId\<close>. (Drivers that also read a string of twelve characters as twelve raw
  bytes are not modelled.)
\<close>

datatype objectId = ObjectId string

fun toString :: "objectId \<Rightarrow> string" where
  "toString (ObjectId h) = h"

definition isHexDigit :: "char \<Rightarrow> bool" where
  "isHexDigit c = (c \<in> set ''0123456789abcdefABCDEF'')"

definition castObjectId :: "string \<Rightarrow> objectId option" where
  "castObjectId s =
     (if length s = 24 \<and> list_all isHexDigit s then Some (ObjectId (toLowerCase s)) else None)"

text \<open>What a handler's \<^verbatim>\<open>try\<close> block can catch.\<close>

datatype jsError =
    CastError string
  | ValidationError
  | TypeError
  | SyntaxError
  | MongoServerError

section \<open>The Task model (models/Task.js)\<close>

record task =
  t_id :: objectId
  title :: string
  description :: "string option"
  status :: string
  priority :: string
  dueDate :: "date option"
  completedAt :: "date option"
  tags :: "string list"
  assignedTo :: "objectId option"
  createdBy :: objectId
  isPublic :: bool
  createdAt :: date
  updatedAt :: date

definition statusEnum :: "string list" where
  "statusEnum = [''pending'', ''in-progress'', ''completed'', ''cancelled'']"

definition priorityEnum :: "string list" where
  "priorityEnum = [''low'', ''medium'', ''high'', ''urgent'']"

text \<open>
  A hydrated document: the task as it stands in memory and the paths assigned a value
  different from the one loaded. Assigning a path its current value does not mark it
  modified.
\<close>

record taskDoc =
  doc :: task
  modifiedPaths :: "string list"

definition hydrate :: "task \<Rightarrow> taskDoc" where
  "hydrate t = \<lparr>doc = t, modifiedPaths = []\<rparr>"

definition isModified :: "taskDoc \<Rightarrow> string \<Rightarrow> bool" where
  "isModified d p = (p \<in> set (modifiedPaths d))"

definition set_status :: "string \<Rightarrow> taskDoc \<Rightarrow> taskDoc" where
  "set_status v d =
     (if status (doc d) = v then d
      else d\<lparr>doc := (doc d)\<lparr>status := v\<rparr>, modifiedPaths := ''status'' # modifiedPaths d\<rparr>)"

definition set_completedAt :: "date option \<Rightarrow> taskDoc \<Rightarrow> taskDoc" where
  "set_completedAt v d =
     (if completedAt (doc d) = v then d
      else d\<lparr>doc := (doc d)\<lparr>completedAt := v\<rparr>,
             modifiedPaths := ''completedAt'' # modifiedPaths d\<rparr>)"

definition set_assignedTo :: "objectId option \<Rightarrow> taskDoc \<Rightarrow> taskDoc" where
  "set_assignedTo v d =
     (if assignedTo (doc d) = v then d
      else d\<lparr>doc := (doc d)\<lparr>assignedTo := v\<rparr>,
             modifiedPaths := ''assignedTo'' # modifiedPaths d\<rparr>)"

text \<open>The virtual \<^verbatim>\<open>isOverdue\<close>.\<close>

definition isOverdue :: "date \<Rightarrow> task \<Rightarrow> bool" where
  "isOverdue now t =
     (case dueDate t of
        None \<Rightarrow> False
      | Some d \<Rightarrow> if status t = ''completed'' then False else now > d)"

text \<open>The virtual \<^verbatim>\<open>age\<close>: whole days since creation, rounded down.\<close>

definition age :: "date \<Rightarrow> task \<Rightarrow> int" where
  "age now t = (now - createdAt t) div (1000 * 60 * 60 * 24)"

text \<open>The \<^verbatim>\<open>pre('save')\<close> middleware.\<close>

definition preSave :: "date \<Rightarrow> taskDoc \<Rightarrow> taskDoc" where
  "preSave now d =
     (if isModified d ''status'' \<and> status (doc d) = ''completed'' \<and> completedAt (doc d) = None
      then set_completedAt (Some now) d
      else if isModified d ''status'' \<and> status (doc d) \<noteq> ''completed''
      then set_completedAt None d
      else d)"

section \<open>The store\<close>

text \<open>
  Modelled from the spec: models/User.js is not part of the sources at hand. A user has
  a unique username and email, a hashed password, a role (\<^verbatim>\<open>user\<close> or \<^verbatim>\<open>admin\<close>), an
  active flag and creation/update timestamps.
\<close>

record user =
  u_id :: objectId
  username :: string
  email :: string
  password :: string
  role :: string
  isActive :: bool
  u_createdAt :: date
  u_updatedAt :: date

text \<open>The two collections, each in insertion order.\<close>

record store =
  users :: "user list"
  tasks :: "task list"

definition taskById :: "objectId \<Rightarrow> store \<Rightarrow> task option" where
  "taskById i s = find (\<lambda>t. t_id t = i) (tasks s)"

definition userById :: "objectId \<Rightarrow> store \<Rightarrow> user option" where
  "userById i s = find (\<lambda>u. u_id u = i) (users s)"

text \<open>
  \<^verbatim>\<open>Task.findById(id)\<close> with a string: the cast comes first and throws on a malformed
  identifier.
\<close>

definition Task_findById :: "string \<Rightarrow> store \<Rightarrow> jsError + task option" where
  "Task_findById p s =
     (case castObjectId p of
        None \<Rightarrow> Inl (CastError ''ObjectId'')
      | Some i \<Rightarrow> Inr (taskById i s))"

text \<open>Writing a document back replaces the stored task of the same identifier.\<close>

definition replaceTask :: "task \<Rightarrow> store \<Rightarrow> store" where
  "replaceTask t s = s\<lparr>tasks := map (\<lambda>x. if t_id x = t_id t then t else x) (tasks s)\<rparr>"

text \<open>
  The validators that the schema declares, as run on a document: \<open>title\<close> required
  and at most 100 characters, \<open>description\<close> at most 500, \<open>status\<close> and
  \<open>priority\<close> within their enumerations, a due date, when there is one, later than
  the clock, tags of at most 20 characters.
\<close>

definition validateTask :: "date \<Rightarrow> task \<Rightarrow> bool" where
  "validateTask now t =
     (title t \<noteq> [] \<and> length (title t) \<le> 100 \<and>
      (case description t of None \<Rightarrow> True | Some v \<Rightarrow> length v \<le> 500) \<and>
      status t \<in> set statusEnum \<and>
      priority t \<in> set priorityEnum \<and>
      (case dueDate t of None \<Rightarrow> True | Some v \<Rightarrow> v > now) \<and>
      list_all (\<lambda>v. length v \<le> 20) (tags t))"

text \<open>
  \<^verbatim>\<open>document.save()\<close> of a loaded document: first every path of the document is
  validated against the schema, the paths loaded from the store as well as the modified
  ones; then the \<^verbatim>\<open>pre('save')\<close> middleware runs; then a document with changes is
  written with a fresh \<open>updatedAt\<close>.
\<close>

definition save :: "date \<Rightarrow> taskDoc \<Rightarrow> store \<Rightarrow> jsError + (task \<times> store)" where
  "save now d s =
     (if \<not> validateTask now (doc d) then Inl ValidationError
      else let d' = preSave now d in
        if modifiedPaths d' = [] then Inr (doc d', s)
        else let t = (doc d')\<lparr>updatedAt := now\<rparr> in Inr (t, replaceTask t s))"

text \<open>The instance methods \<^verbatim>\<open>markComplete\<close> and \<^verbatim>\<open>assignTo\<close>.\<close>

definition markComplete :: "date \<Rightarrow> taskDoc \<Rightarrow> store \<Rightarrow> jsError + (task \<times> store)" where
  "markComplete now d s = save now (set_completedAt (Some now) (set_status ''completed'' d)) s"

definition assignTo :: "date \<Rightarrow> objectId \<Rightarrow> taskDoc \<Rightarrow> store \<Rightarrow> jsError + (task \<times> store)" where
  "assignTo now userId d s = save now (set_assignedTo (Some userId) d) s"

subsection \<open>Populated references\<close>

text \<open>
  \<^verbatim>\<open>populate(path, 'username email')\<close> replaces a reference by the selected fields of
  the user it names, and by \<^verbatim>\<open>null\<close> when the reference is unset or names no stored
  user.
\<close>

record userRef =
  ref_id :: objectId
  ref_username :: string
  ref_email :: "string option"

record populatedTask =
  p_task :: task
  p_assignedTo :: "userRef option"
  p_createdBy :: "userRef option"

definition populateRef :: "bool \<Rightarrow> store \<Rightarrow> objectId \<Rightarrow> userRef option" where
  "populateRef withEmail s i =
     (case userById i s of
        None \<Rightarrow> None
      | Some u \<Rightarrow> Some \<lparr>ref_id = u_id u, ref_username = username u,
                       ref_email = (if withEmail then Some (email u) else None)\<rparr>)"

definition populate :: "store \<Rightarrow> task \<Rightarrow> populatedTask" where
  "populate s t =
     \<lparr>p_task = t,
      p_assignedTo = (case assignedTo t of None \<Rightarrow> None | Some i \<Rightarrow> populateRef True s i),
      p_createdBy = populateRef True s (createdBy t)\<rparr>"

section \<open>The task routes (routes/tasks.js)\<close>

text \<open>
  A handler is a function of the clock, the authenticated user that the \<^verbatim>\<open>auth\<close>
  middleware attached as \<^verbatim>\<open>req.user\<close>, the route parameter, the request body or
  query, and the store; it returns the response and the store it leaves behind.
\<close>

record pagination =
  page :: int
  limit :: int
  total :: int
  pages :: int

text \<open>
  The public listing populates only \<open>createdBy\<close>, with the username alone;
  \<open>assignedTo\<close> stays the stored reference.
\<close>

record publicTask =
  pub_task :: task
  pub_createdBy :: "userRef option"

datatype taskBody =
    Message string
  | ValidationFailed
  | TaskOnly populatedTask
  | TaskWithMessage string "populatedTask option"
  | TaskPage "populatedTask list" pagination
  | PublicTaskPage "publicTask list" pagination

type_synonym taskResponse = "nat \<times> taskBody"

text \<open>The \<^verbatim>\<open>catch\<close> block shared by the routes that take an identifier.\<close>

definition catchTaskError :: "jsError \<Rightarrow> taskResponse" where
  "catchTaskError e =
     (case e of
        CastError k \<Rightarrow>
          if k = ''ObjectId'' then (400, Message ''Invalid task ID'')
          else (500, Message ''Server error'')
      | _ \<Rightarrow> (500, Message ''Server error''))"

subsection \<open>GET /api/tasks/:id\<close>

text \<open>
  The access check reads \<^verbatim>\<open>task.createdBy._id\<close> on the populated document, which
  throws a \<^verbatim>\<open>TypeError\<close> when the creator reference was populated to \<^verbatim>\<open>null\<close>;
  \<^verbatim>\<open>&&\<close> evaluates its operands left to right and stops at the first false one.
\<close>

definition getTaskById :: "user \<Rightarrow> string \<Rightarrow> store \<Rightarrow> taskResponse" where
  "getTaskById reqUser idParam s =
     (case Task_findById idParam s of
        Inl e \<Rightarrow> catchTaskError e
      | Inr None \<Rightarrow> (404, Message ''Task not found'')
      | Inr (Some t) \<Rightarrow>
          let task = populate s t in
          if isPublic t then (200, TaskOnly task)
          else (case p_createdBy task of
                  None \<Rightarrow> catchTaskError TypeError
                | Some c \<Rightarrow>
                    if toString (ref_id c) \<noteq> toString (u_id reqUser) \<and>
                       (case p_assignedTo task of
                          None \<Rightarrow> True
                        | Some a \<Rightarrow> toString (ref_id a) \<noteq> toString (u_id reqUser))
                    then (403, Message ''Access denied'')
                    else (200, TaskOnly task)))"

subsection \<open>PATCH /api/tasks/:id/status\<close>

text \<open>
  \<^verbatim>\<open>body('status').isIn([...])\<close> is not optional: a body without \<open>status\<close> fails it.
\<close>

definition updateTaskStatus ::
  "date \<Rightarrow> user \<Rightarrow> string \<Rightarrow> string option \<Rightarrow> store \<Rightarrow> taskResponse \<times> store" where
  "updateTaskStatus now reqUser idParam bodyStatus s =
     (case bodyStatus of
        None \<Rightarrow> ((400, ValidationFailed), s)
      | Some v \<Rightarrow>
         (if v \<notin> set statusEnum then ((400, ValidationFailed), s)
          else (case Task_findById idParam s of
             Inl e \<Rightarrow> (catchTaskError e, s)
           | Inr None \<Rightarrow> ((404, Message ''Task not found''), s)
           | Inr (Some t) \<Rightarrow>
              (if toString (createdBy t) \<noteq> toString (u_id reqUser) \<and>
                  (case assignedTo t of
                     None \<Rightarrow> True
                   | Some a \<Rightarrow> toString a \<noteq> toString (u_id reqUser))
               then ((403, Message ''Access denied''), s)
               else
                 (let d1 = set_status v (hydrate t);
                      d2 = (if v = ''completed'' then set_completedAt (Some now) d1
                            else set_completedAt None d1)
                  in (case save now d2 s of
                        Inl e \<Rightarrow> (catchTaskError e, s)
                      | Inr (t', s') \<Rightarrow>
                          ((200, TaskWithMessage ''Task status updated successfully''
                                   (map_option (populate s') (taskById (t_id t') s'))),
                           s')))))))"

subsection \<open>DELETE /api/tasks/:id\<close>

definition Task_findByIdAndDelete :: "objectId \<Rightarrow> store \<Rightarrow> store" where
  "Task_findByIdAndDelete i s =
     (case taskById i s of
        None \<Rightarrow> s
      | Some t \<Rightarrow> s\<lparr>tasks := remove1 t (tasks s)\<rparr>)"

definition deleteTask :: "user \<Rightarrow> string \<Rightarrow> store \<Rightarrow> taskResponse \<times> store" where
  "deleteTask reqUser idParam s =
     (case Task_findById idParam s of
        Inl e \<Rightarrow> (catchTaskError e, s)
      | Inr None \<Rightarrow> ((404, Message ''Task not found''), s)
      | Inr (Some t) \<Rightarrow>
          if toString (createdBy t) \<noteq> toString (u_id reqUser)
          then ((403, Message ''Access denied''), s)
          else ((200, Message ''Task deleted successfully''), Task_findByIdAndDelete (t_id t) s))"

subsection \<open>PUT /api/tasks/:id\<close>

text \<open>
  The request body, read at the keys the route and the schema know. A key is absent
  (\<open>None\<close>) or carries a value of the JSON type the schema path expects; a date string
  is one that \<^verbatim>\<open>Date\<close> can parse, with a mark telling whether it is written in
  ISO 8601. Besides the top-level keys the body may carry the update operator
  \<^verbatim>\<open>$set\<close>, whose value is an object over the same keys.
\<close>

datatype dateInput = NonISODate date | ISODate date

fun dateOf :: "dateInput \<Rightarrow> date" where
  "dateOf (NonISODate d) = d"
| "dateOf (ISODate d) = d"

fun isISO8601 :: "dateInput \<Rightarrow> bool" where
  "isISO8601 (NonISODate d) = False"
| "isISO8601 (ISODate d) = True"

record taskUpdate =
  upd_title :: "string option"
  upd_description :: "string option"
  upd_status :: "string option"
  upd_priority :: "string option"
  upd_dueDate :: "dateInput option"
  upd_completedAt :: "dateInput option"
  upd_tags :: "string list option"
  upd_assignedTo :: "string option"
  upd_createdBy :: "string option"
  upd_isPublic :: "bool option"

record putBody =
  topLevel :: taskUpdate
  dollarSet :: "taskUpdate option"

definition noUpdate :: taskUpdate where
  "noUpdate = \<lparr>upd_title = None, upd_description = None, upd_status = None,
     upd_priority = None, upd_dueDate = None, upd_completedAt = None, upd_tags = None,
     upd_assignedTo = None, upd_createdBy = None, upd_isPublic = None\<rparr>"

text \<open>
  The validation chain of the route. Every field is \<^verbatim>\<open>optional()\<close>: an absent key
  passes. \<^verbatim>\<open>trim()\<close> rewrites the field in \<^verbatim>\<open>req.body\<close> before the length is checked.
\<close>

definition optional :: "('a \<Rightarrow> bool) \<Rightarrow> 'a option \<Rightarrow> bool" where
  "optional chk v = (case v of None \<Rightarrow> True | Some x \<Rightarrow> chk x)"

definition isLength :: "nat \<Rightarrow> nat \<Rightarrow> string \<Rightarrow> bool" where
  "isLength lo hi v = (lo \<le> length v \<and> length v \<le> hi)"

definition sanitizeTaskBody :: "putBody \<Rightarrow> putBody" where
  "sanitizeTaskBody b =
     b\<lparr>topLevel := (topLevel b)
          \<lparr>upd_title := map_option trim (upd_title (topLevel b)),
           upd_description := map_option trim (upd_description (topLevel b))\<rparr>\<rparr>"

definition updateValidationOk :: "putBody \<Rightarrow> bool" where
  "updateValidationOk b =
     (let t = topLevel b in
        optional (isLength 1 100) (upd_title t) \<and>
        optional (isLength 0 500) (upd_description t) \<and>
        optional (\<lambda>v. v \<in> set statusEnum) (upd_status t) \<and>
        optional (\<lambda>v. v \<in> set priorityEnum) (upd_priority t) \<and>
        optional isISO8601 (upd_dueDate t))"

text \<open>
  \<^verbatim>\<open>Task.findByIdAndUpdate(id, updates, {new: true, runValidators: true})\<close>.
  Top-level keys that are not operators are shorthand for \<^verbatim>\<open>$set\<close>: they are written
  into the \<^verbatim>\<open>$set\<close> object of the update, over a key of the same name already there.
  The values are cast to the schema types (references to ObjectId, strings through the
  \<^verbatim>\<open>trim\<close> setter), the validators of the schema run on the paths that are set, and
  the update is applied to the stored task. It is a query, not a \<^verbatim>\<open>save()\<close>: the
  \<^verbatim>\<open>pre('save')\<close> middleware does not run. The timestamps option refreshes
  \<open>updatedAt\<close>.
\<close>

definition orElse :: "'a option \<Rightarrow> 'a option \<Rightarrow> 'a option" where
  "orElse a b = (case a of None \<Rightarrow> b | Some x \<Rightarrow> Some x)"

definition mergeSet :: "putBody \<Rightarrow> taskUpdate" where
  "mergeSet b =
     (case dollarSet b of
        None \<Rightarrow> topLevel b
      | Some d \<Rightarrow>
          let t = topLevel b in
          \<lparr>upd_title = orElse (upd_title t) (upd_title d),
           upd_description = orElse (upd_description t) (upd_description d),
           upd_status = orElse (upd_status t) (upd_status d),
           upd_priority = orElse (upd_priority t) (upd_priority d),
           upd_dueDate = orElse (upd_dueDate t) (upd_dueDate d),
           upd_completedAt = orElse (upd_completedAt t) (upd_completedAt d),
           upd_tags = orElse (upd_tags t) (upd_tags d),
           upd_assignedTo = orElse (upd_assignedTo t) (upd_assignedTo d),
           upd_createdBy = orElse (upd_createdBy t) (upd_createdBy d),
           upd_isPublic = orElse (upd_isPublic t) (upd_isPublic d)\<rparr>)"

record taskSet =
  s_title :: "string option"
  s_description :: "string option"
  s_status :: "string option"
  s_priority :: "string option"
  s_dueDate :: "date option"
  s_completedAt :: "date option"
  s_tags :: "string list option"
  s_assignedTo :: "objectId option"
  s_createdBy :: "objectId option"
  s_isPublic :: "bool option"

definition castRef :: "string option \<Rightarrow> jsError + objectId option" where
  "castRef v =
     (case v of
        None \<Rightarrow> Inr None
      | Some p \<Rightarrow> (case castObjectId p of
                     None \<Rightarrow> Inl (CastError ''ObjectId'')
                   | Some i \<Rightarrow> Inr (Some i)))"

definition castUpdate :: "taskUpdate \<Rightarrow> jsError + taskSet" where
  "castUpdate u =
     (case castRef (upd_assignedTo u) of
        Inl e \<Rightarrow> Inl e
      | Inr a \<Rightarrow>
          (case castRef (upd_createdBy u) of
             Inl e \<Rightarrow> Inl e
           | Inr c \<Rightarrow>
               Inr \<lparr>s_title = map_option trim (upd_title u),
                    s_description = map_option trim (upd_description u),
                    s_status = upd_status u,
                    s_priority = upd_priority u,
                    s_dueDate = map_option dateOf (upd_dueDate u),
                    s_completedAt = map_option dateOf (upd_completedAt u),
                    s_tags = map_option (map trim) (upd_tags u),
                    s_assignedTo = a,
                    s_createdBy = c,
                    s_isPublic = upd_isPublic u\<rparr>))"

text \<open>
  The validators the schema declares: \<open>title\<close> required and at most 100 characters,
  \<open>description\<close> at most 500, the two enums, a due date in the future, tags of at most
  20 characters.
\<close>

definition runValidators :: "date \<Rightarrow> taskSet \<Rightarrow> bool" where
  "runValidators now u =
     (optional (\<lambda>v. v \<noteq> [] \<and> length v \<le> 100) (s_title u) \<and>
      optional (\<lambda>v. length v \<le> 500) (s_description u) \<and>
      optional (\<lambda>v. v \<in> set statusEnum) (s_status u) \<and>
      optional (\<lambda>v. v \<in> set priorityEnum) (s_priority u) \<and>
      optional (\<lambda>v. v > now) (s_dueDate u) \<and>
      optional (list_all (\<lambda>v. length v \<le> 20)) (s_tags u))"

definition applySet :: "taskSet \<Rightarrow> task \<Rightarrow> task" where
  "applySet u t =
     t\<lparr>title := (case s_title u of None \<Rightarrow> title t | Some v \<Rightarrow> v),
       description := orElse (s_description u) (description t),
       status := (case s_status u of None \<Rightarrow> status t | Some v \<Rightarrow> v),
       priority := (case s_priority u of None \<Rightarrow> priority t | Some v \<Rightarrow> v),
       dueDate := orElse (s_dueDate u) (dueDate t),
       completedAt := orElse (s_completedAt u) (completedAt t),
       tags := (case s_tags u of None \<Rightarrow> tags t | Some v \<Rightarrow> v),
       assignedTo := orElse (s_assignedTo u) (assignedTo t),
       createdBy := (case s_createdBy u of None \<Rightarrow> createdBy t | Some v \<Rightarrow> v),
       isPublic := (case s_isPublic u of None \<Rightarrow> isPublic t | Some v \<Rightarrow> v)\<rparr>"

definition Task_findByIdAndUpdate ::
  "date \<Rightarrow> string \<Rightarrow> putBody \<Rightarrow> store \<Rightarrow> jsError + (task option \<times> store)" where
  "Task_findByIdAndUpdate now p updates s =
     (case castObjectId p of
        None \<Rightarrow> Inl (CastError ''ObjectId'')
      | Some i \<Rightarrow>
          (case castUpdate (mergeSet updates) of
             Inl e \<Rightarrow> Inl e
           | Inr u \<Rightarrow>
               if \<not> runValidators now u then Inl ValidationError
               else (case taskById i s of
                       None \<Rightarrow> Inr (None, s)
                     | Some t \<Rightarrow>
                         let t' = (applySet u t)\<lparr>updatedAt := now\<rparr>
                         in Inr (Some t', replaceTask t' s))))"

text \<open>\<^verbatim>\<open>delete updates.createdBy\<close> removes the top-level key.\<close>

definition deleteCreatedBy :: "putBody \<Rightarrow> putBody" where
  "deleteCreatedBy b = b\<lparr>topLevel := (topLevel b)\<lparr>upd_createdBy := None\<rparr>\<rparr>"

definition updateTask ::
  "date \<Rightarrow> user \<Rightarrow> string \<Rightarrow> putBody \<Rightarrow> store \<Rightarrow> taskResponse \<times> store" where
  "updateTask now reqUser idParam reqBody s =
     (let body = sanitizeTaskBody reqBody in
      if \<not> updateValidationOk body then ((400, ValidationFailed), s)
      else (case Task_findById idParam s of
        Inl e \<Rightarrow> (catchTaskError e, s)
      | Inr None \<Rightarrow> ((404, Message ''Task not found''), s)
      | Inr (Some t) \<Rightarrow>
          (if toString (createdBy t) \<noteq> toString (u_id reqUser)
           then ((403, Message ''Access denied''), s)
           else
             (let updates = deleteCreatedBy body
              in (case Task_findByIdAndUpdate now idParam updates s of
                    Inl e \<Rightarrow> (catchTaskError e, s)
                  | Inr (updatedTask, s') \<Rightarrow>
                      ((200, TaskWithMessage ''Task updated successfully''
                               (map_option (populate s') updatedTask)), s'))))))"

subsection \<open>Queries, paging and regular expressions\<close>

text \<open>
  \<^verbatim>\<open>parseInt\<close>: leading white space, an optional sign, an optional \<^verbatim>\<open>0x\<close> prefix, then
  the longest run of digits of the radix; \<open>None\<close> stands for \<^verbatim>\<open>NaN\<close>. Numbers are exact
  integers here (a JavaScript number is exact up to \<open>2^53\<close>).
\<close>

definition hexDigits :: string where
  "hexDigits = ''0123456789abcdef''"

definition digitValue :: "char \<Rightarrow> nat option" where
  "digitValue c = map_of (zip hexDigits [0, 1, 2, 3, 4, 5, 6, 7, 8, 9, 10, 11, 12, 13, 14, 15])
     (toLowerChar c)"

definition isDigitOf :: "nat \<Rightarrow> char \<Rightarrow> bool" where
  "isDigitOf radix c = (case digitValue c of None \<Rightarrow> False | Some d \<Rightarrow> d < radix)"

definition digitsValue :: "nat \<Rightarrow> string \<Rightarrow> nat" where
  "digitsValue radix ds =
     foldl (\<lambda>acc c. acc * radix + (case digitValue c of None \<Rightarrow> 0 | Some d \<Rightarrow> d)) 0 ds"

definition parseInt :: "string \<Rightarrow> int option" where
  "parseInt str =
     (let s1 = dropWhile isWhiteSpace str;
          neg = (take 1 s1 = ''-'');
          s2 = (if take 1 s1 = ''-'' \<or> take 1 s1 = ''+'' then drop 1 s1 else s1);
          hex = (toLowerCase (take 2 s2) = ''0x'');
          radix = (if hex then 16 else 10);
          s3 = (if hex then drop 2 s2 else s2);
          ds = takeWhile (isDigitOf radix) s3
      in if ds = [] then None
         else Some (if neg then - int (digitsValue radix ds) else int (digitsValue radix ds)))"

text \<open>\<^verbatim>\<open>parseInt(req.query.x) || d\<close>: an absent parameter, \<^verbatim>\<open>NaN\<close> and \<open>0\<close> give \<open>d\<close>.\<close>

definition parseIntOr :: "string option \<Rightarrow> int \<Rightarrow> int" where
  "parseIntOr q d =
     (case q of
        None \<Rightarrow> d
      | Some v \<Rightarrow> (case parseInt v of None \<Rightarrow> d | Some n \<Rightarrow> if n = 0 then d else n))"

text \<open>\<^verbatim>\<open>Math.ceil(total / limit)\<close> for a non-zero \<open>limit\<close>.\<close>

definition ceilDiv :: "int \<Rightarrow> int \<Rightarrow> int" where
  "ceilDiv a b = - ((- a) div b)"

text \<open>
  \<^verbatim>\<open>.skip(n).limit(m)\<close> on a cursor: the server rejects a negative skip; a negative
  limit asks for that many documents in a single batch, and a limit of \<open>0\<close> is no limit.
\<close>

definition skipLimit :: "int \<Rightarrow> int \<Rightarrow> 'a list \<Rightarrow> jsError + 'a list" where
  "skipLimit n m xs =
     (if n < 0 then Inl MongoServerError
      else if m = 0 then Inr (drop (nat n) xs)
      else Inr (take (nat \<bar>m\<bar>) (drop (nat n) xs)))"

text \<open>\<^verbatim>\<open>.sort({createdAt: -1})\<close>: newest first; equal dates keep their stored order.\<close>

definition sortNewestFirst :: "('a \<Rightarrow> date) \<Rightarrow> 'a list \<Rightarrow> 'a list" where
  "sortNewestFirst f xs = sort_key (\<lambda>x. - f x) xs"

text \<open>
  \<^verbatim>\<open>new RegExp(pattern, 'i')\<close>. The pattern is a regular expression, not a literal.
  A pattern built from ordinary characters and the alternation bar compiles to its
  alternatives, and it matches a string when one of the alternatives occurs in it,
  letter case ignored. The rest of the regular-expression language is a parameter of
  the routes: the engine gives, for a pattern, the set of strings it matches with the
  flag \<open>i\<close>, or nothing when the pattern does not compile (a \<^verbatim>\<open>SyntaxError\<close>).
\<close>

type_synonym regExpEngine = "string \<Rightarrow> (string \<Rightarrow> bool) option"

datatype regExp = RegExp "string list" | Native "string \<Rightarrow> bool"

definition metaChars :: string where
  "metaChars = [CHR 0x5C, CHR ''^'', CHR ''$'', CHR ''.'', CHR ''*'', CHR ''+'', CHR ''?'',
     CHR ''('', CHR '')'', CHR ''['', CHR '']'', CHR ''{'', CHR ''}'', CHR ''|'']"

fun splitBar :: "string \<Rightarrow> string list" where
  "splitBar [] = [[]]"
| "splitBar (c # cs) =
     (if c = CHR ''|'' then [] # splitBar cs
      else (case splitBar cs of a # as \<Rightarrow> (c # a) # as | [] \<Rightarrow> [[c]]))"

definition newRegExp :: "regExpEngine \<Rightarrow> string \<Rightarrow> jsError + regExp" where
  "newRegExp engine pat =
     (if list_all (\<lambda>c. c = CHR ''|'' \<or> c \<notin> set metaChars) pat then Inr (RegExp (splitBar pat))
      else (case engine pat of None \<Rightarrow> Inl SyntaxError | Some m \<Rightarrow> Inr (Native m)))"

fun isPrefixOf :: "'a list \<Rightarrow> 'a list \<Rightarrow> bool" where
  "isPrefixOf [] ys = True"
| "isPrefixOf (x # xs) [] = False"
| "isPrefixOf (x # xs) (y # ys) = (x = y \<and> isPrefixOf xs ys)"

fun isInfixOf :: "'a list \<Rightarrow> 'a list \<Rightarrow> bool" where
  "isInfixOf xs [] = (xs = [])"
| "isInfixOf xs (y # ys) = (isPrefixOf xs (y # ys) \<or> isInfixOf xs ys)"

fun regExpTest :: "regExp \<Rightarrow> string \<Rightarrow> bool" where
  "regExpTest (RegExp alts) str =
     list_ex (\<lambda>a. isInfixOf (toLowerCase a) (toLowerCase str)) alts"
| "regExpTest (Native m) str = m str"

text \<open>
  A filter document over tasks. The keys of a filter object must all hold; \<^verbatim>\<open>$or\<close>
  and \<^verbatim>\<open>$and\<close> take a list of filters; a regular expression as the value of a
  string path must match it, and \<^verbatim>\<open>{tags: {$in: [re]}}\<close> asks for a tag that one of
  the expressions matches.
\<close>

datatype taskCond =
    CreatedByIs objectId
  | AssignedToIs objectId
  | IsPublicIs bool
  | StatusIs string
  | PriorityIs string
  | TitleMatches regExp
  | DescriptionMatches regExp
  | TagsIn "regExp list"
  | Or "taskCond list"
  | And "taskCond list"

fun matchesCond :: "task \<Rightarrow> taskCond \<Rightarrow> bool" where
  "matchesCond t (CreatedByIs i) = (createdBy t = i)"
| "matchesCond t (AssignedToIs i) = (assignedTo t = Some i)"
| "matchesCond t (IsPublicIs b) = (isPublic t = b)"
| "matchesCond t (StatusIs v) = (status t = v)"
| "matchesCond t (PriorityIs v) = (priority t = v)"
| "matchesCond t (TitleMatches r) = regExpTest r (title t)"
| "matchesCond t (DescriptionMatches r) =
     (case description t of None \<Rightarrow> False | Some d \<Rightarrow> regExpTest r d)"
| "matchesCond t (TagsIn rs) = list_ex (\<lambda>tag. list_ex (\<lambda>r. regExpTest r tag) rs) (tags t)"
| "matchesCond t (Or cs) = list_ex (matchesCond t) cs"
| "matchesCond t (And cs) = list_all (matchesCond t) cs"

definition Task_find :: "taskCond list \<Rightarrow> store \<Rightarrow> task list" where
  "Task_find q s = filter (\<lambda>t. list_all (matchesCond t) q) (tasks s)"

definition Task_countDocuments :: "taskCond list \<Rightarrow> store \<Rightarrow> int" where
  "Task_countDocuments q s = int (length (Task_find q s))"

text \<open>A query parameter is truthy when it is present and not the empty string.\<close>

definition truthy :: "string option \<Rightarrow> bool" where
  "truthy q = (case q of None \<Rightarrow> False | Some v \<Rightarrow> v \<noteq> [])"

record taskOptions =
  o_status :: "string option"
  o_priority :: "string option"

definition optionKeys :: "taskOptions \<Rightarrow> taskCond list" where
  "optionKeys opts =
     (case o_status opts of None \<Rightarrow> [] | Some v \<Rightarrow> [StatusIs v]) @
     (case o_priority opts of None \<Rightarrow> [] | Some v \<Rightarrow> [PriorityIs v])"

text \<open>The static \<^verbatim>\<open>findByUser\<close> of the model, before paging.\<close>

definition findByUser :: "objectId \<Rightarrow> taskOptions \<Rightarrow> store \<Rightarrow> task list" where
  "findByUser userId opts s =
     (let query = [Or [CreatedByIs userId, AssignedToIs userId, IsPublicIs True]] @
                  (if truthy (o_status opts) then [StatusIs (the (o_status opts))] else []) @
                  (if truthy (o_priority opts) then [PriorityIs (the (o_priority opts))] else [])
      in sortNewestFirst createdAt (Task_find query s))"

subsection \<open>GET /api/tasks\<close>

record taskListQuery =
  q_page :: "string option"
  q_limit :: "string option"
  q_status :: "string option"
  q_priority :: "string option"
  q_search :: "string option"

text \<open>
  The \<^verbatim>\<open>catch\<close> block of the list routes answers every error, a pattern that does
  not compile included, with 500.
\<close>

definition getTasks ::
  "regExpEngine \<Rightarrow> user \<Rightarrow> taskListQuery \<Rightarrow> store \<Rightarrow> taskResponse" where
  "getTasks engine reqUser q s =
     (let page = parseIntOr (q_page q) 1;
          limit = parseIntOr (q_limit q) 10;
          opts = \<lparr>o_status = (if truthy (q_status q) then q_status q else None),
                  o_priority = (if truthy (q_priority q) then q_priority q else None)\<rparr>
      in if truthy (q_search q) then
           (case newRegExp engine (the (q_search q)) of
              Inl e \<Rightarrow> (500, Message ''Server error'')
            | Inr searchRegex \<Rightarrow>
                (let query = [Or [CreatedByIs (u_id reqUser), AssignedToIs (u_id reqUser),
                                  IsPublicIs True],
                              And [Or [TitleMatches searchRegex, DescriptionMatches searchRegex,
                                       TagsIn [searchRegex]]]] @ optionKeys opts
                 in (case skipLimit ((page - 1) * limit) limit
                           (sortNewestFirst createdAt (Task_find query s)) of
                       Inl e \<Rightarrow> (500, Message ''Server error'')
                     | Inr found \<Rightarrow>
                         (let total = Task_countDocuments query s
                          in (200, TaskPage (map (populate s) found)
                               \<lparr>page = page, limit = limit, total = total,
                                pages = ceilDiv total limit\<rparr>)))))
         else
           (case skipLimit ((page - 1) * limit) limit (findByUser (u_id reqUser) opts s) of
              Inl e \<Rightarrow> (500, Message ''Server error'')
            | Inr found \<Rightarrow>
                (let query = [Or [CreatedByIs (u_id reqUser), AssignedToIs (u_id reqUser),
                                  IsPublicIs True]] @ optionKeys opts;
                     total = Task_countDocuments query s
                 in (200, TaskPage (map (populate s) found)
                      \<lparr>page = page, limit = limit, total = total,
                       pages = ceilDiv total limit\<rparr>))))"

subsection \<open>GET /api/tasks/public\<close>

definition populatePublic :: "store \<Rightarrow> task \<Rightarrow> publicTask" where
  "populatePublic s t = \<lparr>pub_task = t, pub_createdBy = populateRef False s (createdBy t)\<rparr>"

definition getPublicTasks :: "taskListQuery \<Rightarrow> store \<Rightarrow> taskResponse" where
  "getPublicTasks q s =
     (let page = parseIntOr (q_page q) 1;
          limit = parseIntOr (q_limit q) 10
      in (case skipLimit ((page - 1) * limit) limit
                (sortNewestFirst createdAt (Task_find [IsPublicIs True] s)) of
            Inl e \<Rightarrow> (500, Message ''Server error'')
          | Inr found \<Rightarrow>
              (let total = Task_countDocuments [IsPublicIs True] s
               in (200, PublicTaskPage (map (populatePublic s) found)
                    \<lparr>page = page, limit = limit, total = total,
                     pages = ceilDiv total limit\<rparr>))))"

section \<open>The user routes (routes/users.js)\<close>

text \<open>
  The handlers below run behind the \<^verbatim>\<open>auth\<close> or \<^verbatim>\<open>adminAuth\<close> middleware, which
  attaches the authenticated user as \<^verbatim>\<open>req.user\<close>.

  \<^verbatim>\<open>.select('-password')\<close> loads a user document without its password.
\<close>

record userDoc =
  d_id :: objectId
  d_username :: string
  d_email :: string
  d_password :: "string option"
  d_role :: string
  d_isActive :: bool
  d_createdAt :: date
  d_updatedAt :: date

definition selectWithoutPassword :: "user \<Rightarrow> userDoc" where
  "selectWithoutPassword u =
     \<lparr>d_id = u_id u, d_username = username u, d_email = email u, d_password = None,
      d_role = role u, d_isActive = isActive u, d_createdAt = u_createdAt u,
      d_updatedAt = u_updatedAt u\<rparr>"

text \<open>
  What the routes use of code that is not at hand, taken as parameters: the instance
  method \<^verbatim>\<open>getPublicProfile\<close> and the validators of the user schema (models/User.js),
  and \<^verbatim>\<open>isEmail\<close> and \<^verbatim>\<open>normalizeEmail\<close> of the validation library.
\<close>

record userUpdate =
  b_username :: "string option"
  b_email :: "string option"
  b_role :: "string option"
  b_isActive :: "bool option"

record 'p userDeps =
  getPublicProfile :: "userDoc \<Rightarrow> 'p"
  userSchemaAccepts :: "userUpdate \<Rightarrow> bool"
  isEmail :: "string \<Rightarrow> bool"
  normalizeEmail :: "string \<Rightarrow> string"

datatype 'p userBody =
    UserMessage string
  | UserValidationFailed
  | UserOnly 'p
  | UserWithMessage string 'p
  | UserPage "'p list" pagination

type_synonym 'p userResponse = "nat \<times> 'p userBody"

definition catchUserError :: "jsError \<Rightarrow> 'p userResponse" where
  "catchUserError e =
     (case e of
        CastError k \<Rightarrow>
          if k = ''ObjectId'' then (400, UserMessage ''Invalid user ID'')
          else (500, UserMessage ''Server error'')
      | _ \<Rightarrow> (500, UserMessage ''Server error''))"

definition User_findById :: "string \<Rightarrow> store \<Rightarrow> jsError + user option" where
  "User_findById p s =
     (case castObjectId p of
        None \<Rightarrow> Inl (CastError ''ObjectId'')
      | Some i \<Rightarrow> Inr (userById i s))"

subsection \<open>GET /api/users\<close>

record userListQuery =
  uq_page :: "string option"
  uq_limit :: "string option"

definition getUsers :: "'p userDeps \<Rightarrow> userListQuery \<Rightarrow> store \<Rightarrow> 'p userResponse" where
  "getUsers deps q s =
     (let page = parseIntOr (uq_page q) 1;
          limit = parseIntOr (uq_limit q) 10;
          skip = (page - 1) * limit
      in (case skipLimit skip limit
                (sortNewestFirst d_createdAt (map selectWithoutPassword (users s))) of
            Inl e \<Rightarrow> (500, UserMessage ''Server error'')
          | Inr found \<Rightarrow>
              (let total = int (length (users s))
               in (200, UserPage (map (getPublicProfile deps) found)
                    \<lparr>page = page, limit = limit, total = total,
                     pages = ceilDiv total limit\<rparr>))))"

subsection \<open>GET /api/users/:id\<close>

definition getUserById :: "'p userDeps \<Rightarrow> user \<Rightarrow> string \<Rightarrow> store \<Rightarrow> 'p userResponse" where
  "getUserById deps reqUser idParam s =
     (case User_findById idParam s of
        Inl e \<Rightarrow> catchUserError e
      | Inr None \<Rightarrow> (404, UserMessage ''User not found'')
      | Inr (Some u) \<Rightarrow>
          if role reqUser \<noteq> ''admin'' \<and> toString (u_id reqUser) \<noteq> idParam
          then (403, UserMessage ''Access denied'')
          else (200, UserOnly (getPublicProfile deps (selectWithoutPassword u))))"

subsection \<open>PUT /api/users/:id\<close>

definition sanitizeUserBody :: "'p userDeps \<Rightarrow> userUpdate \<Rightarrow> userUpdate" where
  "sanitizeUserBody deps b = b\<lparr>b_email := map_option (normalizeEmail deps) (b_email b)\<rparr>"

definition userValidationOk :: "'p userDeps \<Rightarrow> userUpdate \<Rightarrow> bool" where
  "userValidationOk deps b =
     (optional (isLength 3 30) (b_username b) \<and>
      optional (isEmail deps) (b_email b) \<and>
      optional (\<lambda>v. v \<in> set [''user'', ''admin'']) (b_role b))"

text \<open>
  \<^verbatim>\<open>User.findOne({$or: [{email}, {username}], _id: {$ne: id}})\<close>: the identifier is
  cast first; the \<^verbatim>\<open>$or\<close> lists only the fields that are truthy.
\<close>

definition findConflict :: "userUpdate \<Rightarrow> string \<Rightarrow> store \<Rightarrow> jsError + user option" where
  "findConflict b p s =
     (case castObjectId p of
        None \<Rightarrow> Inl (CastError ''ObjectId'')
      | Some i \<Rightarrow>
          Inr (find (\<lambda>u. ((truthy (b_email b) \<and> Some (email u) = b_email b) \<or>
                          (truthy (b_username b) \<and> Some (username u) = b_username b)) \<and>
                         u_id u \<noteq> i) (users s)))"

definition applyUserUpdate :: "date \<Rightarrow> userUpdate \<Rightarrow> user \<Rightarrow> user" where
  "applyUserUpdate now b u =
     u\<lparr>username := (case b_username b of None \<Rightarrow> username u | Some v \<Rightarrow> v),
       email := (case b_email b of None \<Rightarrow> email u | Some v \<Rightarrow> v),
       role := (case b_role b of None \<Rightarrow> role u | Some v \<Rightarrow> v),
       isActive := (case b_isActive b of None \<Rightarrow> isActive u | Some v \<Rightarrow> v),
       u_updatedAt := now\<rparr>"

definition User_findByIdAndUpdate ::
  "'p userDeps \<Rightarrow> date \<Rightarrow> string \<Rightarrow> userUpdate \<Rightarrow> store \<Rightarrow> jsError + (user option \<times> store)"
  where
  "User_findByIdAndUpdate deps now p updates s =
     (case castObjectId p of
        None \<Rightarrow> Inl (CastError ''ObjectId'')
      | Some i \<Rightarrow>
          if \<not> userSchemaAccepts deps updates then Inl ValidationError
          else (case userById i s of
                  None \<Rightarrow> Inr (None, s)
                | Some u \<Rightarrow>
                    let u' = applyUserUpdate now updates u
                    in Inr (Some u',
                            s\<lparr>users := map (\<lambda>x. if u_id x = i then u' else x) (users s)\<rparr>)))"

definition updateUser ::
  "'p userDeps \<Rightarrow> date \<Rightarrow> string \<Rightarrow> userUpdate \<Rightarrow> store \<Rightarrow> 'p userResponse \<times> store" where
  "updateUser deps now idParam reqBody s =
     (if \<not> userValidationOk deps reqBody then ((400, UserValidationFailed), s)
      else
        (let updates = sanitizeUserBody deps reqBody
         in (case (if truthy (b_username updates) \<or> truthy (b_email updates)
                   then findConflict updates idParam s else Inr None) of
               Inl e \<Rightarrow> (catchUserError e, s)
             | Inr (Some existingUser) \<Rightarrow>
                 ((400, UserMessage ''Username or email already exists''), s)
             | Inr None \<Rightarrow>
                 (case User_findByIdAndUpdate deps now idParam updates s of
                    Inl e \<Rightarrow> (catchUserError e, s)
                  | Inr (None, s') \<Rightarrow> ((404, UserMessage ''User not found''), s')
                  | Inr (Some u, s') \<Rightarrow>
                      ((200, UserWithMessage ''User updated successfully''
                               (getPublicProfile deps (selectWithoutPassword u))), s')))))"

subsection \<open>DELETE /api/users/:id\<close>

definition User_findByIdAndDelete :: "string \<Rightarrow> store \<Rightarrow> jsError + store" where
  "User_findByIdAndDelete p s =
     (case castObjectId p of
        None \<Rightarrow> Inl (CastError ''ObjectId'')
      | Some i \<Rightarrow>
          (case userById i s of
             None \<Rightarrow> Inr s
           | Some u \<Rightarrow> Inr (s\<lparr>users := remove1 u (users s)\<rparr>)))"

definition deleteUser :: "user \<Rightarrow> string \<Rightarrow> store \<Rightarrow> unit userResponse \<times> store" where
  "deleteUser reqUser idParam s =
     (case User_findById idParam s of
        Inl e \<Rightarrow> (catchUserError e, s)
      | Inr None \<Rightarrow> ((404, UserMessage ''User not found''), s)
      | Inr (Some u) \<Rightarrow>
          if toString (u_id reqUser) = idParam
          then ((400, UserMessage ''Cannot delete your own account''), s)
          else (case User_findByIdAndDelete idParam s of
                  Inl e \<Rightarrow> (catchUserError e, s)
                | Inr s' \<Rightarrow> ((200, UserMessage ''User deleted successfully''), s')))"

subsection \<open>GET /api/users/search/:query\<close>

datatype userCond =
    UsernameMatches regExp
  | EmailMatches regExp

fun matchesUserCond :: "user \<Rightarrow> userCond \<Rightarrow> bool" where
  "matchesUserCond u (UsernameMatches r) = regExpTest r (username u)"
| "matchesUserCond u (EmailMatches r) = regExpTest r (email u)"

text \<open>\<^verbatim>\<open>User.find({$or: conds})\<close>.\<close>

definition User_findOr :: "userCond list \<Rightarrow> store \<Rightarrow> user list" where
  "User_findOr conds s = filter (\<lambda>u. list_ex (matchesUserCond u) conds) (users s)"

definition searchUsers ::
  "'p userDeps \<Rightarrow> regExpEngine \<Rightarrow> string \<Rightarrow> userListQuery \<Rightarrow> store \<Rightarrow> 'p userResponse"
  where
  "searchUsers deps engine query q s =
     (let page = parseIntOr (uq_page q) 1;
          limit = parseIntOr (uq_limit q) 10;
          skip = (page - 1) * limit
      in (case newRegExp engine query of
            Inl e \<Rightarrow> (500, UserMessage ''Server error'')
          | Inr searchRegex \<Rightarrow>
              (let conds = [UsernameMatches searchRegex, EmailMatches searchRegex]
               in (case skipLimit skip limit
                         (sortNewestFirst d_createdAt
                            (map selectWithoutPassword (User_findOr conds s))) of
                     Inl e \<Rightarrow> (500, UserMessage ''Server error'')
                   | Inr found \<Rightarrow>
                       (let total = int (length (User_findOr conds s))
                        in (200, UserPage (map (getPublicProfile deps) found)
                             \<lparr>page = page, limit = limit, total = total,
                              pages = ceilDiv total limit\<rparr>))))))"

section \<open>A small store used to run the operations\<close>

definition aliceId :: objectId where
  "aliceId = ObjectId ''aaaaaaaaaaaaaaaaaaaaaaaa''"

definition bobId :: objectId where
  "bobId = ObjectId ''bbbbbbbbbbbbbbbbbbbbbbbb''"

definition carolId :: objectId where
  "carolId = ObjectId ''cccccccccccccccccccccccc''"

definition alice :: user where
  "alice = \<lparr>u_id = aliceId, username = ''alice'', email = ''alice@example.com'',
     password = ''hash-a'', role = ''user'', isActive = True,
     u_createdAt = 100, u_updatedAt = 100\<rparr>"

definition bob :: user where
  "bob = \<lparr>u_id = bobId, username = ''bob'', email = ''bob@example.com'',
     password = ''hash-b'', role = ''user'', isActive = True,
     u_createdAt = 200, u_updatedAt = 200\<rparr>"

definition carol :: user where
  "carol = \<lparr>u_id = carolId, username = ''carol'', email = ''carol@example.com'',
     password = ''hash-c'', role = ''admin'', isActive = True,
     u_createdAt = 300, u_updatedAt = 300\<rparr>"

definition reportId :: string where
  "reportId = ''111111111111111111111111''"

definition reviewId :: string where
  "reviewId = ''222222222222222222222222''"

text \<open>A private pending task of alice assigned to bob, and a completed one.\<close>

definition reportTask :: task where
  "reportTask = \<lparr>t_id = ObjectId reportId, title = ''Write report'',
     description = Some ''Quarterly numbers'', status = ''pending'', priority = ''medium'',
     dueDate = None, completedAt = None, tags = [''work''], assignedTo = Some bobId,
     createdBy = aliceId, isPublic = False, createdAt = 1000, updatedAt = 1000\<rparr>"

definition reviewTask :: task where
  "reviewTask = \<lparr>t_id = ObjectId reviewId, title = ''Review budget'',
     description = None, status = ''completed'', priority = ''high'',
     dueDate = None, completedAt = Some 1500, tags = [], assignedTo = Some bobId,
     createdBy = aliceId, isPublic = False, createdAt = 1200, updatedAt = 1500\<rparr>"

definition demoStore :: store where
  "demoStore = \<lparr>users = [alice, bob, carol], tasks = [reportTask, reviewTask]\<rparr>"




definition lunchTask :: task where
  "lunchTask = \<lparr>t_id = ObjectId ''555555555555555555555555'', title = ''Team lunch'',
     description = None, status = ''pending'', priority = ''low'',
     dueDate = None, completedAt = None, tags = [''social''], assignedTo = None,
     createdBy = bobId, isPublic = True, createdAt = 1300, updatedAt = 1300\<rparr>"

definition boardStore :: store where
  "boardStore = \<lparr>users = [alice, bob, carol], tasks = [reportTask, reviewTask, lunchTask]\<rparr>"

text \<open>
  A stand-in for the engine, used to run the routes: it knows the patterns built from
  ordinary characters and dots, a dot standing for any character but a line feed, and
  compiles no other pattern.
\<close>

fun matchesHere :: "string \<Rightarrow> string \<Rightarrow> bool" where
  "matchesHere [] str = True"
| "matchesHere (p # ps) [] = False"
| "matchesHere (p # ps) (c # cs) =
     (((p = CHR ''.'' \<and> c \<noteq> CHR 0x0A) \<or> toLowerChar p = toLowerChar c) \<and> matchesHere ps cs)"

fun matchesSomewhere :: "string \<Rightarrow> string \<Rightarrow> bool" where
  "matchesSomewhere pat [] = matchesHere pat []"
| "matchesSomewhere pat (c # cs) = (matchesHere pat (c # cs) \<or> matchesSomewhere pat cs)"

definition dotEngine :: regExpEngine where
  "dotEngine pat =
     (if list_all (\<lambda>c. c = CHR ''.'' \<or> c \<notin> set metaChars) pat
      then Some (matchesSomewhere pat) else None)"

text \<open>The store after the account of alice has been deleted: her tasks stay.\<close>

definition orphanStore :: store where
  "orphanStore = \<lparr>users = [bob, carol], tasks = [reportTask, reviewTask]\<rparr>"

text \<open>A body that carries nothing but a status.\<close>

definition statusOnly :: "string \<Rightarrow> putBody" where
  "statusOnly v = \<lparr>topLevel = noUpdate\<lparr>upd_status := Some v\<rparr>, dollarSet = None\<rparr>"

text \<open>A body whose only content is a creator inside \<^verbatim>\<open>$set\<close>.\<close>

definition setCreatedBy :: "string \<Rightarrow> putBody" where
  "setCreatedBy v = \<lparr>topLevel = noUpdate, dollarSet = Some (noUpdate\<lparr>upd_createdBy := Some v\<rparr>)\<rparr>"

text \<open>
  The update that the route hands to the model passes the casts and the validators of
  the schema.
\<close>

definition updateAccepted :: "date \<Rightarrow> putBody \<Rightarrow> bool" where
  "updateAccepted now b =
     (case castUpdate (mergeSet (deleteCreatedBy (sanitizeTaskBody b))) of
        Inl e \<Rightarrow> False
      | Inr u \<Rightarrow> runValidators now u)"

text \<open>
  Stand-ins for the parameters of the user routes, used to run them: the public profile
  is the loaded document as it is, the schema accepts every update, an address is
  anything with an \<open>@\<close> and normalising lower-cases it.
\<close>

definition demoDeps :: "userDoc userDeps" where
  "demoDeps = \<lparr>getPublicProfile = (\<lambda>d. d), userSchemaAccepts = (\<lambda>b. True),
     isEmail = (\<lambda>e. CHR ''@'' \<in> set e), normalizeEmail = toLowerCase\<rparr>"

text \<open>A well-formed identifier that names nothing in the store, and two spellings.\<close>

definition absentId :: string where
  "absentId = ''333333333333333333333333''"

definition carolIdUpper :: string where
  "carolIdUpper = ''CCCCCCCCCCCCCCCCCCCCCCCC''"

definition aliceIdString :: string where
  "aliceIdString = ''aaaaaaaaaaaaaaaaaaaaaaaa''"

definition bobIdString :: string where
  "bobIdString = ''bbbbbbbbbbbbbbbbbbbbbbbb''"

definition renameBody :: userUpdate where
  "renameBody = \<lparr>b_username = Some ''dave'', b_email = None, b_role = None, b_isActive = None\<rparr>"

subsection \<open>Statements about responses\<close>

text \<open>The store with every stored password blanked.\<close>

definition erasePasswords :: "store \<Rightarrow> store" where
  "erasePasswords s = s\<lparr>users := map (\<lambda>u. u\<lparr>password := []\<rparr>) (users s)\<rparr>"

text \<open>The serialized users of a response.\<close>

fun profilesOf :: "'p userBody \<Rightarrow> 'p list" where
  "profilesOf (UserOnly x) = [x]"
| "profilesOf (UserWithMessage m x) = [x]"
| "profilesOf (UserPage xs pg) = xs"
| "profilesOf (UserMessage m) = []"
| "profilesOf UserValidationFailed = []"

text \<open>
  Every serialized user of the response is the public profile of a document that was
  loaded without its password.
\<close>

definition passwordFree :: "'p userDeps \<Rightarrow> 'p userBody \<Rightarrow> bool" where
  "passwordFree deps body =
     (\<exists>docs. list_all (\<lambda>d. d_password d = None) docs \<and>
             profilesOf body = map (getPublicProfile deps) docs)"

text \<open>
  The selection of GET /api/tasks in the words of its description: the task is created
  by the user, assigned to the user or public; it has the status and the priority asked
  for, when one is asked for; and it is hit by the search, when there is one.
\<close>

definition visibleTo :: "objectId \<Rightarrow> task \<Rightarrow> bool" where
  "visibleTo uid t = (createdBy t = uid \<or> assignedTo t = Some uid \<or> isPublic t)"

definition restrictedTo :: "string option \<Rightarrow> string \<Rightarrow> bool" where
  "restrictedTo asked actual =
     (case asked of None \<Rightarrow> True | Some v \<Rightarrow> if v = [] then True else actual = v)"

definition selectedBy :: "objectId \<Rightarrow> taskListQuery \<Rightarrow> (task \<Rightarrow> bool) \<Rightarrow> task \<Rightarrow> bool" where
  "selectedBy uid q hit t =
     (visibleTo uid t \<and> restrictedTo (q_status q) (status t) \<and>
      restrictedTo (q_priority q) (priority t) \<and> hit t)"

text \<open>A string contains another as a substring, letter case ignored.\<close>

definition containsIgnoringCase :: "string \<Rightarrow> string \<Rightarrow> bool" where
  "containsIgnoringCase needle str = sublist (toLowerCase needle) (toLowerCase str)"

definition substringHit :: "string \<Rightarrow> task \<Rightarrow> bool" where
  "substringHit needle t =
     (containsIgnoringCase needle (title t) \<or>
      (\<exists>d. description t = Some d \<and> containsIgnoringCase needle d) \<or>
      (\<exists>tag \<in> set (tags t). containsIgnoringCase needle tag))"

text \<open>The same with the search read as the regular expression it is compiled to.\<close>

definition regExpHit :: "regExp \<Rightarrow> task \<Rightarrow> bool" where
  "regExpHit r t =
     (regExpTest r (title t) \<or>
      (case description t of None \<Rightarrow> False | Some d \<Rightarrow> regExpTest r d) \<or>
      list_ex (regExpTest r) (tags t))"

text \<open>The number of documents that a list route skips: \<^verbatim>\<open>(page - 1) * limit\<close>.\<close>

definition skipOf :: "string option \<Rightarrow> string option \<Rightarrow> int" where
  "skipOf qp ql = (parseIntOr qp 1 - 1) * parseIntOr ql 10"

text \<open>The page of a list that \<open>skip\<close> and \<open>limit\<close> cut out.\<close>

definition pageSlice :: "pagination \<Rightarrow> 'a list \<Rightarrow> 'a list" where
  "pageSlice pg xs = take (nat \<bar>limit pg\<bar>) (drop (nat ((page pg - 1) * limit pg)) xs)"

definition noQuery :: taskListQuery where
  "noQuery = \<lparr>q_page = None, q_limit = None, q_status = None, q_priority = None,
     q_search = None\<rparr>"

definition noUserQuery :: userListQuery where
  "noUserQuery = \<lparr>uq_page = None, uq_limit = None\<rparr>"

text \<open>A request for the page before the first.\<close>

definition pageMinusOne :: userListQuery where
  "pageMinusOne = \<lparr>uq_page = Some ''-1'', uq_limit = None\<rparr>"

text \<open>The search restriction as GET /api/tasks compiles it; no search restricts nothing.\<close>

definition compiledHit :: "regExpEngine \<Rightarrow> taskListQuery \<Rightarrow> task \<Rightarrow> bool" where
  "compiledHit engine q t =
     (if truthy (q_search q)
      then (case newRegExp engine (the (q_search q)) of
              Inl e \<Rightarrow> False
            | Inr re \<Rightarrow> regExpHit re t)
      else True)"

text \<open>The search of a list route compiles: there is none, or the pattern is accepted.\<close>

definition compiles :: "regExpEngine \<Rightarrow> string option \<Rightarrow> bool" where
  "compiles engine search =
     (if truthy search then (case newRegExp engine (the search) of Inl e \<Rightarrow> False | Inr re \<Rightarrow> True)
      else True)"

text \<open>The users that the user search selects for a compiled pattern.\<close>

definition userHit :: "regExp \<Rightarrow> user \<Rightarrow> bool" where
  "userHit re u = (regExpTest re (username u) \<or> regExpTest re (email u))"

text \<open>The search restriction for a literal search string.\<close>

definition literalHit :: "taskListQuery \<Rightarrow> task \<Rightarrow> bool" where
  "literalHit q t = (case q_search q of None \<Rightarrow> True | Some pat \<Rightarrow> substringHit pat t)"

definition isLiteral :: "string option \<Rightarrow> bool" where
  "isLiteral search =
     (case search of None \<Rightarrow> True | Some pat \<Rightarrow> list_all (\<lambda>c. c \<notin> set metaChars) pat)"

text \<open>
  The pagination object of a list response over \<open>n\<close> matching documents: \<open>page\<close>
  and \<open>limit\<close> are the parsed parameters, 1 and 10 when the parameter is omitted;
  \<open>total\<close> is \<open>n\<close>; \<open>pages\<close> is the ceiling of \<open>total / limit\<close>.
\<close>

definition paginationOf :: "pagination \<Rightarrow> string option \<Rightarrow> string option \<Rightarrow> nat \<Rightarrow> bool" where
  "paginationOf pg qp ql n =
     (page pg = (case qp of None \<Rightarrow> 1 | Some v \<Rightarrow> parseIntOr (Some v) 1) \<and>
      limit pg = (case ql of None \<Rightarrow> 10 | Some v \<Rightarrow> parseIntOr (Some v) 10) \<and>
      limit pg \<noteq> 0 \<and>
      total pg = int n \<and>
      pages pg = \<lceil>real n / real_of_int (limit pg)\<rceil>)"

text \<open>The options object that GET /api/tasks builds from the query.\<close>

definition optsOf :: "taskListQuery \<Rightarrow> taskOptions" where
  "optsOf q = \<lparr>o_status = (if truthy (q_status q) then q_status q else None),
               o_priority = (if truthy (q_priority q) then q_priority q else None)\<rparr>"

text \<open>The response of the route for a given selection of tasks.\<close>

definition taskPage :: "store \<Rightarrow> taskListQuery \<Rightarrow> task list \<Rightarrow> taskResponse" where
  "taskPage s q sel =
     (case skipLimit ((parseIntOr (q_page q) 1 - 1) * parseIntOr (q_limit q) 10)
             (parseIntOr (q_limit q) 10) (sortNewestFirst createdAt sel) of
        Inl e \<Rightarrow> (500, Message ''Server error'')
      | Inr found \<Rightarrow>
          (200, TaskPage (map (populate s) found)
             \<lparr>page = parseIntOr (q_page q) 1, limit = parseIntOr (q_limit q) 10,
              total = int (length sel),
              pages = ceilDiv (int (length sel)) (parseIntOr (q_limit q) 10)\<rparr>))"

definition searchFor :: "string \<Rightarrow> taskListQuery" where
  "searchFor pat = noQuery\<lparr>q_search := Some pat\<rparr>"

section \<open>Properties\<close>

lemmas demo_defs = demoStore_def alice_def bob_def carol_def aliceId_def bobId_def carolId_def
  reportTask_def reviewTask_def reportId_def reviewId_def

subsection \<open>Looking up and replacing stored tasks\<close>

lemma find_map_replace:
  "find (\<lambda>t. t_id t = i) ts = Some t \<Longrightarrow> t_id t' = i \<Longrightarrow>
   find (\<lambda>t. t_id t = i) (map (\<lambda>x. if t_id x = i then t' else x) ts) = Some t'"
  by (induction ts) (auto split: if_splits)

lemma taskById_replaceTask:
  "taskById i s = Some t \<Longrightarrow> t_id t' = i \<Longrightarrow> taskById i (replaceTask t' s) = Some t'"
  by (simp add: taskById_def replaceTask_def find_map_replace)

lemma taskById_id: "taskById i s = Some t \<Longrightarrow> t_id t = i"
  by (auto simp: taskById_def dest: find_Some_iff[THEN iffD1])

subsection \<open>The completion timestamp\<close>






lemma validateTask_completedAt [simp]:
  "validateTask now (t\<lparr>completedAt := x\<rparr>) = validateTask now t"
  by (simp add: validateTask_def)





text \<open>
  C1. Every update of a task's status should set \<open>completedAt\<close> when the new status
  is \<open>completed\<close> and clear it otherwise, on every path, the full update
  PUT /api/tasks/:id included. The full update does not: run by the creator with the body
  \<^verbatim>\<open>{"status": "completed"}\<close> on a pending task it answers 200 and stores the status
  \<open>completed\<close> with no completion timestamp, and with \<^verbatim>\<open>{"status": "pending"}\<close> on a
  completed task it stores \<open>pending\<close> and keeps the old timestamp.
\<close>

theorem put_status_leaves_completedAt:
  "fst (fst (updateTask 2000 alice reportId (statusOnly ''completed'') demoStore)) = 200 \<and>
   map_option status (taskById (ObjectId reportId)
     (snd (updateTask 2000 alice reportId (statusOnly ''completed'') demoStore)))
     = Some ''completed'' \<and>
   map_option completedAt (taskById (ObjectId reportId)
     (snd (updateTask 2000 alice reportId (statusOnly ''completed'') demoStore)))
     = Some None \<and>
   fst (fst (updateTask 2000 alice reviewId (statusOnly ''pending'') demoStore)) = 200 \<and>
   map_option status (taskById (ObjectId reviewId)
     (snd (updateTask 2000 alice reviewId (statusOnly ''pending'') demoStore)))
     = Some ''pending'' \<and>
   map_option completedAt (taskById (ObjectId reviewId)
     (snd (updateTask 2000 alice reviewId (statusOnly ''pending'') demoStore)))
     = Some (Some 1500)"
  by code_simp




subsection \<open>Facts about the small store\<close>

lemma cast_reportId: "castObjectId reportId = Some (ObjectId reportId)"
  by (simp add: castObjectId_def reportId_def isHexDigit_def toLowerCase_def
      toLowerChar_def upperLetters_def lowerLetters_def)

lemma demo_report: "taskById (ObjectId reportId) demoStore = Some reportTask"
  by (simp add: taskById_def demo_defs)


lemma statusOnly_valid:
  "v \<in> set statusEnum \<Longrightarrow> updateValidationOk (sanitizeTaskBody (statusOnly v))"
  "v \<in> set statusEnum \<Longrightarrow> updateAccepted now (statusOnly v)"
  by (simp_all add: updateValidationOk_def sanitizeTaskBody_def statusOnly_def noUpdate_def
      optional_def updateAccepted_def deleteCreatedBy_def mergeSet_def castUpdate_def
      castRef_def runValidators_def Let_def)

lemma demo_users:
  "userById (u_id alice) demoStore = Some alice"
  "userById (u_id bob) demoStore = Some bob"
  "userById (u_id carol) demoStore = Some carol"
  by (simp_all add: userById_def demo_defs)

subsection \<open>Reading a task\<close>

lemma toString_eq [simp]: "toString a = toString b \<longleftrightarrow> a = b"
  by (cases a; cases b) simp

lemma userById_id: "userById i s = Some u \<Longrightarrow> u_id u = i"
  by (auto simp: userById_def dest: find_Some_iff[THEN iffD1])

lemma populateRef_id: "populateRef e s i = Some r \<Longrightarrow> ref_id r = i"
  by (auto simp: populateRef_def userById_id split: option.splits)

lemma populateRef_Some: "userById i s \<noteq> None \<Longrightarrow> \<exists>r. populateRef e s i = Some r \<and> ref_id r = i"
  by (auto simp: populateRef_def userById_id split: option.splits)

text \<open>
  For a stored task and a stored requester, and with the creator reference of a task
  that is not public naming a stored user: 403 with a message and no task when the task
  is not public and the requester is neither its creator nor its assignee; 200 with the
  task when it is public or the requester is its creator or its assignee.
\<close>

lemma get_task_access:
  assumes "castObjectId p = Some i" and "taskById i s = Some t"
    and "userById (u_id u) s \<noteq> None"
    and "\<not> isPublic t \<Longrightarrow> userById (createdBy t) s \<noteq> None"
  shows "(\<not> isPublic t \<and> createdBy t \<noteq> u_id u \<and> assignedTo t \<noteq> Some (u_id u)
            \<longrightarrow> getTaskById u p s = (403, Message ''Access denied'')) \<and>
         (isPublic t \<or> createdBy t = u_id u \<or> assignedTo t = Some (u_id u)
            \<longrightarrow> getTaskById u p s = (200, TaskOnly (populate s t)))"
proof (cases "isPublic t")
  case True
  with assms(1,2) show ?thesis
    by (simp add: getTaskById_def Task_findById_def Let_def)
next
  case False
  then obtain c where c: "populateRef True s (createdBy t) = Some c" "ref_id c = createdBy t"
    using assms(4) populateRef_Some by blast
  show ?thesis
  proof (cases "assignedTo t")
    case None
    with False c assms(1,2) show ?thesis
      by (auto simp: getTaskById_def Task_findById_def Let_def populate_def)
  next
    case (Some a)
    show ?thesis
    proof (cases "populateRef True s a")
      case None
      then have "a \<noteq> u_id u" using populateRef_Some [of "u_id u" s True] assms(3) by auto
      with None Some False c assms(1,2) show ?thesis
        by (auto simp: getTaskById_def Task_findById_def Let_def populate_def)
    next
      case (Some r)
      then have "ref_id r = a" by (rule populateRef_id)
      with Some \<open>assignedTo t = Some a\<close> False c assms(1,2) show ?thesis
        by (auto simp: getTaskById_def Task_findById_def Let_def populate_def)
    qed
  qed
qed

lemma get_task_access_example:
  "getTaskById carol reportId demoStore = (403, Message ''Access denied'') \<and>
   getTaskById bob reportId demoStore = (200, TaskOnly (populate demoStore reportTask)) \<and>
   getTaskById alice reportId demoStore = (200, TaskOnly (populate demoStore reportTask))"
proof -
  have c: "userById (createdBy reportTask) demoStore \<noteq> None"
    by (simp add: userById_def demo_defs)
  have who: "\<not> isPublic reportTask" "createdBy reportTask \<noteq> u_id carol"
    "assignedTo reportTask \<noteq> Some (u_id carol)" "assignedTo reportTask = Some (u_id bob)"
    "createdBy reportTask = u_id alice"
    by (simp_all add: demo_defs)
  note th = get_task_access [OF cast_reportId demo_report _ c]
  from th [where u = carol] th [where u = bob] th [where u = alice] demo_users who
  show ?thesis by simp
qed

text \<open>
  C2. GET /api/tasks/:id should answer 403 to a requester who is neither creator nor
  assignee of a task that is not public, and return the task to its creator and to its
  assignee. On a task whose creator's account has been deleted it does neither: the
  admin's DELETE /api/users/:id removes alice and leaves her task; after that the
  populated \<open>createdBy\<close> of the task is \<^verbatim>\<open>null\<close>, reading its \<^verbatim>\<open>_id\<close> throws, and
  the assignee bob as well as the stranger carol are answered 500.
\<close>

theorem get_task_of_deleted_creator:
  "deleteUser carol aliceIdString demoStore
     = ((200, UserMessage ''User deleted successfully''), orphanStore) \<and>
   taskById (ObjectId reportId) orphanStore = Some reportTask \<and>
   isPublic reportTask = False \<and>
   userById (u_id bob) orphanStore = Some bob \<and>
   assignedTo reportTask = Some (u_id bob) \<and>
   getTaskById bob reportId orphanStore = (500, Message ''Server error'') \<and>
   userById (u_id carol) orphanStore = Some carol \<and>
   createdBy reportTask \<noteq> u_id carol \<and>
   assignedTo reportTask \<noteq> Some (u_id carol) \<and>
   getTaskById carol reportId orphanStore = (500, Message ''Server error'')"
  by code_simp

subsection \<open>Writing a task\<close>











subsection \<open>The creator of a task\<close>

text \<open>
  C8. A successful PUT /api/tasks/:id should leave \<open>createdBy\<close> as it was, whatever
  the body carries. The route deletes the top-level key only: the creator's PUT with
  the body \<^verbatim>\<open>{"$set": {"createdBy": "bbbbbbbbbbbbbbbbbbbbbbbb"}}\<close> is answered 200 and the
  stored task then names bob as its creator.
\<close>

theorem set_operator_changes_creator:
  "fst (fst (updateTask 2000 alice reportId (setCreatedBy bobIdString) demoStore)) = 200 \<and>
   map_option createdBy (taskById (ObjectId reportId) demoStore) = Some (u_id alice) \<and>
   map_option createdBy (taskById (ObjectId reportId)
     (snd (updateTask 2000 alice reportId (setCreatedBy bobIdString) demoStore)))
     = Some (u_id bob)"
  by code_simp

text \<open>Without a creator inside \<^verbatim>\<open>$set\<close>, a successful PUT keeps the creator.\<close>

lemma applySet_keeps_creator: "s_createdBy u = None \<Longrightarrow> createdBy (applySet u t) = createdBy t"
  by (simp add: applySet_def)

lemma castUpdate_createdBy:
  "castUpdate x = Inr u \<Longrightarrow> upd_createdBy x = None \<Longrightarrow> s_createdBy u = None"
  by (auto simp: castUpdate_def castRef_def split: sum.splits option.splits)

lemma mergeSet_createdBy:
  "(case dollarSet b of None \<Rightarrow> True | Some d \<Rightarrow> upd_createdBy d = None) \<Longrightarrow>
   upd_createdBy (mergeSet (deleteCreatedBy b)) = None"
  by (auto simp: mergeSet_def deleteCreatedBy_def orElse_def Let_def split: option.splits)

lemma put_keeps_creator_without_set:
  assumes "castObjectId p = Some i" and "taskById i s = Some t"
    and "case dollarSet b of None \<Rightarrow> True | Some d \<Rightarrow> upd_createdBy d = None"
    and "updateTask now u p b s = ((200, body), s')"
  shows "map_option createdBy (taskById i s') = Some (createdBy t)"
proof -
  have id: "t_id t = i" using assms(2) by (rule taskById_id)
  have ds: "dollarSet (sanitizeTaskBody b) = dollarSet b" by (simp add: sanitizeTaskBody_def)
  have none: "upd_createdBy (mergeSet (deleteCreatedBy (sanitizeTaskBody b))) = None"
    by (rule mergeSet_createdBy) (simp add: ds assms(3))
  from assms(1,2,4) obtain x where
    x: "castUpdate (mergeSet (deleteCreatedBy (sanitizeTaskBody b))) = Inr x"
    and s': "s' = replaceTask ((applySet x t)\<lparr>updatedAt := now\<rparr>) s"
    by (auto simp: updateTask_def Task_findById_def Let_def Task_findByIdAndUpdate_def
        catchTaskError_def split: if_splits sum.splits jsError.splits)
  have "s_createdBy x = None" using x none by (rule castUpdate_createdBy)
  then have "createdBy ((applySet x t)\<lparr>updatedAt := now\<rparr>) = createdBy t"
    by (simp add: applySet_keeps_creator)
  moreover have "t_id ((applySet x t)\<lparr>updatedAt := now\<rparr>) = i"
    by (simp add: applySet_def id)
  ultimately show ?thesis
    using taskById_replaceTask [OF assms(2)] s' by simp
qed

subsection \<open>Deleting a user\<close>

text \<open>
  C9. An admin's DELETE /api/users/:id naming the admin's own account should be refused
  and leave the account in place. The route compares the lower-case spelling of the
  admin's identifier with the raw route parameter: with the parameter written in upper
  case the lookup and the deletion still resolve to the admin's account, the comparison
  does not, and the account is deleted with a 200.
\<close>

theorem admin_deletes_own_account:
  "role carol = ''admin'' \<and>
   castObjectId carolIdUpper = Some (u_id carol) \<and>
   userById (u_id carol) demoStore = Some carol \<and>
   deleteUser carol carolIdUpper demoStore
     = ((200, UserMessage ''User deleted successfully''), demoStore\<lparr>users := [alice, bob]\<rparr>) \<and>
   userById (u_id carol) (demoStore\<lparr>users := [alice, bob]\<rparr>) = None"
  by code_simp

text \<open>
  With the identifier spelled as \<^verbatim>\<open>toString()\<close> prints it the request is refused,
  and deleting another stored user succeeds.
\<close>

lemma deleteUser_own_spelling:
  assumes "castObjectId (toString (u_id u)) = Some (u_id u)" and "userById (u_id u) s = Some u'"
  shows "deleteUser u (toString (u_id u)) s
           = ((400, UserMessage ''Cannot delete your own account''), s)"
  using assms by (simp add: deleteUser_def User_findById_def)

lemma deleteUser_other:
  assumes "castObjectId p = Some i" and "userById i s = Some v" and "i \<noteq> u_id u"
    and "castObjectId (toString (u_id u)) = Some (u_id u)"
  shows "deleteUser u p s
           = ((200, UserMessage ''User deleted successfully''), s\<lparr>users := remove1 v (users s)\<rparr>)"
proof -
  have "toString (u_id u) \<noteq> p" using assms(1,3,4) by auto
  with assms(1,2) show ?thesis
    by (simp add: deleteUser_def User_findById_def User_findByIdAndDelete_def)
qed


subsection \<open>Identifiers that name nothing\<close>

lemma tasks_absent:
  assumes "castObjectId p = Some i" and "taskById i s = None"
  shows "getTaskById u p s = (404, Message ''Task not found'') \<and>
         deleteTask u p s = ((404, Message ''Task not found''), s) \<and>
         (updateValidationOk (sanitizeTaskBody b) \<longrightarrow>
            updateTask now u p b s = ((404, Message ''Task not found''), s)) \<and>
         (v \<in> set statusEnum \<longrightarrow>
            updateTaskStatus now u p (Some v) s = ((404, Message ''Task not found''), s))"
  using assms
  by (simp add: getTaskById_def deleteTask_def updateTask_def updateTaskStatus_def
      Task_findById_def Let_def)

lemma users_absent:
  assumes "castObjectId p = Some i" and "userById i s = None"
  shows "getUserById deps u p s = (404, UserMessage ''User not found'') \<and>
         deleteUser u p s = ((404, UserMessage ''User not found''), s) \<and>
         (userValidationOk deps ub \<and>
          findConflict (sanitizeUserBody deps ub) p s = Inr None \<and>
          userSchemaAccepts deps (sanitizeUserBody deps ub) \<longrightarrow>
            updateUser deps now p ub s = ((404, UserMessage ''User not found''), s))"
  using assms
  by (simp add: getUserById_def deleteUser_def updateUser_def User_findById_def Let_def
      User_findByIdAndUpdate_def)

lemma tasks_malformed:
  assumes "castObjectId p = None"
  shows "getTaskById u p s = (400, Message ''Invalid task ID'') \<and>
         deleteTask u p s = ((400, Message ''Invalid task ID''), s) \<and>
         fst (fst (updateTask now u p b s)) = 400 \<and> snd (updateTask now u p b s) = s \<and>
         fst (fst (updateTaskStatus now u p bs s)) = 400 \<and>
         snd (updateTaskStatus now u p bs s) = s"
  using assms
  by (simp add: getTaskById_def deleteTask_def updateTask_def updateTaskStatus_def
      Task_findById_def Let_def catchTaskError_def split: option.splits)

lemma users_malformed:
  assumes "castObjectId p = None"
  shows "getUserById deps u p s = (400, UserMessage ''Invalid user ID'') \<and>
         deleteUser u p s = ((400, UserMessage ''Invalid user ID''), s) \<and>
         fst (fst (updateUser deps now p ub s)) = 400 \<and> snd (updateUser deps now p ub s) = s"
  using assms
  by (simp add: getUserById_def deleteUser_def updateUser_def User_findById_def Let_def
      User_findByIdAndUpdate_def findConflict_def catchUserError_def)

text \<open>
  C5, as amended. On the routes that take an identifier (tasks: GET, PUT, PATCH of the
  status, DELETE; users: GET, PUT, DELETE): a well-formed identifier that names no stored
  document is answered 404, once the request has passed the checks that precede the
  lookup (the validation of the body for PUT and PATCH and, for the user update, the
  search for a conflicting username or email and the validators of the schema); a
  malformed identifier is answered 400 and nothing is stored.
\<close>

theorem lookup_failures:
  "(castObjectId p = Some i \<and> taskById i s = None \<longrightarrow>
      getTaskById u p s = (404, Message ''Task not found'') \<and>
      deleteTask u p s = ((404, Message ''Task not found''), s) \<and>
      (updateValidationOk (sanitizeTaskBody b) \<longrightarrow>
         updateTask now u p b s = ((404, Message ''Task not found''), s)) \<and>
      (v \<in> set statusEnum \<longrightarrow>
         updateTaskStatus now u p (Some v) s = ((404, Message ''Task not found''), s))) \<and>
   (castObjectId p = Some i \<and> userById i s = None \<longrightarrow>
      getUserById deps u p s = (404, UserMessage ''User not found'') \<and>
      deleteUser u p s = ((404, UserMessage ''User not found''), s) \<and>
      (userValidationOk deps ub \<and> findConflict (sanitizeUserBody deps ub) p s = Inr None \<and>
       userSchemaAccepts deps (sanitizeUserBody deps ub) \<longrightarrow>
         updateUser deps now p ub s = ((404, UserMessage ''User not found''), s))) \<and>
   (castObjectId p = None \<longrightarrow>
      getTaskById u p s = (400, Message ''Invalid task ID'') \<and>
      deleteTask u p s = ((400, Message ''Invalid task ID''), s) \<and>
      fst (fst (updateTask now u p b s)) = 400 \<and> snd (updateTask now u p b s) = s \<and>
      fst (fst (updateTaskStatus now u p bs s)) = 400 \<and>
      snd (updateTaskStatus now u p bs s) = s \<and>
      getUserById deps u p s = (400, UserMessage ''Invalid user ID'') \<and>
      deleteUser u p s = ((400, UserMessage ''Invalid user ID''), s) \<and>
      fst (fst (updateUser deps now p ub s)) = 400 \<and> snd (updateUser deps now p ub s) = s)"
  using tasks_absent [of p i s u b now v] users_absent [of p i s deps u ub now]
    tasks_malformed [of p u s now b bs] users_malformed [of p deps u s now ub]
  by blast

theorem lookup_failures_witness:
  "getTaskById carol absentId demoStore = (404, Message ''Task not found'') \<and>
   deleteTask carol absentId demoStore = ((404, Message ''Task not found''), demoStore) \<and>
   updateTask 2000 carol absentId (statusOnly ''completed'') demoStore
     = ((404, Message ''Task not found''), demoStore) \<and>
   updateTaskStatus 2000 carol absentId (Some ''completed'') demoStore
     = ((404, Message ''Task not found''), demoStore) \<and>
   getUserById demoDeps carol absentId demoStore = (404, UserMessage ''User not found'') \<and>
   deleteUser carol absentId demoStore = ((404, UserMessage ''User not found''), demoStore) \<and>
   updateUser demoDeps 2000 absentId renameBody demoStore
     = ((404, UserMessage ''User not found''), demoStore) \<and>
   getTaskById carol ''abc'' demoStore = (400, Message ''Invalid task ID'') \<and>
   deleteTask carol ''abc'' demoStore = ((400, Message ''Invalid task ID''), demoStore) \<and>
   fst (fst (updateTask 2000 carol ''abc'' (statusOnly ''completed'') demoStore)) = 400 \<and>
   fst (fst (updateTaskStatus 2000 carol ''abc'' (Some ''completed'') demoStore)) = 400 \<and>
   getUserById demoDeps carol ''abc'' demoStore = (400, UserMessage ''Invalid user ID'') \<and>
   deleteUser carol ''abc'' demoStore = ((400, UserMessage ''Invalid user ID''), demoStore) \<and>
   fst (fst (updateUser demoDeps 2000 ''abc'' renameBody demoStore)) = 400"
proof -
  have a: "castObjectId absentId = Some (ObjectId absentId)"
    by (simp add: castObjectId_def absentId_def isHexDigit_def toLowerCase_def
        toLowerChar_def upperLetters_def lowerLetters_def)
  have b: "taskById (ObjectId absentId) demoStore = None"
    "userById (ObjectId absentId) demoStore = None"
    by (simp_all add: taskById_def userById_def demo_defs absentId_def)
  have m: "castObjectId ''abc'' = None" by (simp add: castObjectId_def)
  have v: "''completed'' \<in> set statusEnum" by (simp add: statusEnum_def)
  have ub: "userValidationOk demoDeps renameBody"
    "userSchemaAccepts demoDeps (sanitizeUserBody demoDeps renameBody)"
    by (simp_all add: userValidationOk_def demoDeps_def renameBody_def optional_def
        isLength_def sanitizeUserBody_def)
  have nc: "findConflict (sanitizeUserBody demoDeps renameBody) absentId demoStore = Inr None"
    by (simp add: findConflict_def a sanitizeUserBody_def renameBody_def truthy_def demo_defs)
  note absent = lookup_failures [where p = absentId and i = "ObjectId absentId"
      and s = demoStore and u = carol and b = "statusOnly ''completed''" and now = 2000
      and v = "''completed''" and deps = demoDeps and ub = renameBody]
  note malformed = lookup_failures [where p = "''abc''" and s = demoStore and u = carol
      and b = "statusOnly ''completed''" and now = 2000 and bs = "Some ''completed''"
      and deps = demoDeps and ub = renameBody]
  from absent malformed a b m v ub nc statusOnly_valid(1) [OF v]
  show ?thesis by simp
qed

text \<open>
  The claim as stated, 404 also for a malformed identifier, fails: the \<^verbatim>\<open>catch\<close>
  blocks answer a cast error of kind \<^verbatim>\<open>ObjectId\<close> with 400.
\<close>

theorem malformed_id_counterexample:
  "castObjectId ''abc'' = None \<and>
   getTaskById carol ''abc'' demoStore = (400, Message ''Invalid task ID'') \<and>
   getUserById demoDeps carol ''abc'' demoStore = (400, UserMessage ''Invalid user ID'')"
  by (simp add: castObjectId_def getTaskById_def Task_findById_def catchTaskError_def
      getUserById_def User_findById_def catchUserError_def)

subsection \<open>Passwords\<close>

lemma select_blank [simp]: "selectWithoutPassword (u\<lparr>password := x\<rparr>) = selectWithoutPassword u"
  by (simp add: selectWithoutPassword_def)

lemma select_no_password [simp]: "d_password (selectWithoutPassword u) = None"
  by (simp add: selectWithoutPassword_def)

lemma select_erased [simp]:
  "map selectWithoutPassword (users (erasePasswords s)) = map selectWithoutPassword (users s)"
  by (simp add: erasePasswords_def comp_def)

lemma find_map_option: "find P (map f xs) = map_option f (find (\<lambda>x. P (f x)) xs)"
  by (induction xs) auto

lemma userById_erased:
  "userById i (erasePasswords s) = map_option (\<lambda>u. u\<lparr>password := []\<rparr>) (userById i s)"
  by (simp add: userById_def erasePasswords_def find_map_option)

lemma findOr_erased:
  "map selectWithoutPassword (User_findOr c (erasePasswords s))
     = map selectWithoutPassword (User_findOr c s)"
proof -
  have "matchesUserCond (u\<lparr>password := []\<rparr>) = matchesUserCond u" for u
  proof
    fix x show "matchesUserCond (u\<lparr>password := []\<rparr>) x = matchesUserCond u x"
      by (cases x) simp_all
  qed
  then show ?thesis
    by (simp add: User_findOr_def erasePasswords_def filter_map comp_def)
qed

lemma findOr_length_erased:
  "length (User_findOr c (erasePasswords s)) = length (User_findOr c s)"
  using findOr_erased [of c s, THEN arg_cong, of length] by simp

lemma findConflict_erased:
  "findConflict b p (erasePasswords s)
     = map_sum id (map_option (\<lambda>u. u\<lparr>password := []\<rparr>)) (findConflict b p s)"
  by (simp add: findConflict_def erasePasswords_def find_map_option split: option.splits)

lemma length_erased [simp]: "length (users (erasePasswords s)) = length (users s)"
  by (simp add: erasePasswords_def)

lemma getUsers_erased: "getUsers deps q (erasePasswords s) = getUsers deps q s"
  unfolding getUsers_def select_erased length_erased by (rule refl)

lemma getUserById_erased: "getUserById deps ru p (erasePasswords s) = getUserById deps ru p s"
  by (simp add: getUserById_def User_findById_def userById_erased
      split: option.splits)

lemma searchUsers_erased:
  "searchUsers deps engine pat q (erasePasswords s) = searchUsers deps engine pat q s"
  unfolding searchUsers_def findOr_erased findOr_length_erased by (rule refl)

lemma select_applyUserUpdate [simp]:
  "selectWithoutPassword (applyUserUpdate now b (u\<lparr>password := x\<rparr>))
     = selectWithoutPassword (applyUserUpdate now b u)"
  by (simp add: selectWithoutPassword_def applyUserUpdate_def split: option.splits)

lemma updateUser_erased:
  "fst (updateUser deps now p b (erasePasswords s)) = fst (updateUser deps now p b s)"
  by (auto simp: updateUser_def Let_def findConflict_erased User_findByIdAndUpdate_def
      userById_erased split: sum.splits option.splits)


lemma passwordFree_select:
  "passwordFree deps (UserOnly (getPublicProfile deps (selectWithoutPassword u)))"
  "passwordFree deps (UserWithMessage m (getPublicProfile deps (selectWithoutPassword u)))"
  "passwordFree deps (UserMessage m)"
  "passwordFree deps UserValidationFailed"
proof -
  show "passwordFree deps (UserOnly (getPublicProfile deps (selectWithoutPassword u)))"
    unfolding passwordFree_def by (rule exI [of _ "[selectWithoutPassword u]"]) simp
  show "passwordFree deps (UserWithMessage m (getPublicProfile deps (selectWithoutPassword u)))"
    unfolding passwordFree_def by (rule exI [of _ "[selectWithoutPassword u]"]) simp
  show "passwordFree deps (UserMessage m)"
    unfolding passwordFree_def by (rule exI [of _ "[]"]) simp
  show "passwordFree deps UserValidationFailed"
    unfolding passwordFree_def by (rule exI [of _ "[]"]) simp
qed

lemma skipLimit_subset: "skipLimit n m xs = Inr ys \<Longrightarrow> set ys \<subseteq> set xs"
  by (auto simp: skipLimit_def split: if_splits dest: in_set_takeD in_set_dropD)

lemma passwordFree_page:
  assumes "skipLimit n m (sortNewestFirst d_createdAt (map selectWithoutPassword us)) = Inr found"
  shows "passwordFree deps (UserPage (map (getPublicProfile deps) found) pg)"
proof -
  have "set found \<subseteq> selectWithoutPassword ` set us"
    using skipLimit_subset [OF assms] by (simp add: sortNewestFirst_def)
  then have "list_all (\<lambda>d. d_password d = None) found"
    by (auto simp: list_all_iff)
  then show ?thesis unfolding passwordFree_def by auto
qed

text \<open>
  C7. The user list, the user read, the user update and the user search never serialize
  a password: their responses are the same when every stored password is blanked, and
  every serialized user is the public profile of a document loaded without its
  password, whatever \<^verbatim>\<open>getPublicProfile\<close> does with the document and whatever the
  search pattern and the engine that compiles it.
\<close>


theorem responses_without_password:
  "getUsers deps q (erasePasswords s) = getUsers deps q s \<and>
   getUserById deps ru p (erasePasswords s) = getUserById deps ru p s \<and>
   fst (updateUser deps now p b (erasePasswords s)) = fst (updateUser deps now p b s) \<and>
   searchUsers deps engine pat q (erasePasswords s) = searchUsers deps engine pat q s \<and>
   passwordFree deps (snd (getUsers deps q s)) \<and>
   passwordFree deps (snd (getUserById deps ru p s)) \<and>
   passwordFree deps (snd (fst (updateUser deps now p b s))) \<and>
   passwordFree deps (snd (searchUsers deps engine pat q s))"
proof -
  have 1: "passwordFree deps (snd (getUsers deps q s))"
    by (auto simp: getUsers_def Let_def passwordFree_select passwordFree_page split: sum.splits)
  have 2: "passwordFree deps (snd (getUserById deps ru p s))"
    by (auto simp: getUserById_def catchUserError_def passwordFree_select
        split: sum.splits option.splits jsError.splits)
  have 3: "passwordFree deps (snd (fst (updateUser deps now p b s)))"
    by (auto simp: updateUser_def Let_def catchUserError_def passwordFree_select
        split: sum.splits option.splits jsError.splits)
  have 4: "passwordFree deps (snd (searchUsers deps engine pat q s))"
    by (auto simp: searchUsers_def Let_def passwordFree_select passwordFree_page
        split: sum.splits)
  from 1 2 3 4 show ?thesis
    by (simp add: getUsers_erased getUserById_erased updateUser_erased searchUsers_erased)
qed

theorem responses_without_password_witness:
  "searchUsers demoDeps dotEngine ''bob@example.com'' noUserQuery (erasePasswords demoStore)
     = (200, UserPage [selectWithoutPassword bob]
               \<lparr>page = 1, limit = 10, total = 1, pages = 1\<rparr>) \<and>
   getUserById demoDeps carol bobIdString (erasePasswords demoStore)
     = (200, UserOnly (selectWithoutPassword bob)) \<and>
   passwordFree demoDeps
     (snd (searchUsers demoDeps dotEngine ''bob@example.com'' noUserQuery demoStore))"
proof -
  have e: "searchUsers demoDeps dotEngine ''bob@example.com'' noUserQuery demoStore
     = (200, UserPage [selectWithoutPassword bob]
               \<lparr>page = 1, limit = 10, total = 1, pages = 1\<rparr>)"
    by code_simp
  have g: "getUserById demoDeps carol bobIdString demoStore
     = (200, UserOnly (selectWithoutPassword bob))"
    by code_simp
  from responses_without_password [where deps = demoDeps and engine = dotEngine
      and pat = "''bob@example.com''" and q = noUserQuery and s = demoStore and ru = carol
      and p = bobIdString] e g
  show ?thesis by simp
qed

subsection \<open>Listing tasks\<close>

lemma parseIntOr_default: "parseIntOr None d = d"
  by (simp add: parseIntOr_def)

lemma parseIntOr_nonzero: "d \<noteq> 0 \<Longrightarrow> parseIntOr q d \<noteq> 0"
  by (simp add: parseIntOr_def split: option.splits)

lemma ceilDiv_ceiling: "ceilDiv a b = \<lceil>real_of_int a / real_of_int b\<rceil>"
proof -
  have "\<lceil>real_of_int a / real_of_int b\<rceil> = - \<lfloor>real_of_int (- a) / real_of_int b\<rfloor>"
    by (simp add: ceiling_def)
  also have "\<dots> = - ((- a) div b)"
    by (simp only: floor_divide_of_int_eq)
  finally show ?thesis by (simp add: ceilDiv_def)
qed

lemma skipLimit_Inr:
  "skipLimit n m xs = Inr ys \<Longrightarrow> m \<noteq> 0 \<Longrightarrow> 0 \<le> n \<and> ys = take (nat \<bar>m\<bar>) (drop (nat n) xs)"
  by (auto simp: skipLimit_def split: if_splits)

lemma skipLimit_ok:
  "0 \<le> n \<Longrightarrow> m \<noteq> 0 \<Longrightarrow> skipLimit n m xs = Inr (take (nat \<bar>m\<bar>) (drop (nat n) xs))"
  by (simp add: skipLimit_def)

lemma isPrefixOf_iff: "isPrefixOf xs ys \<longleftrightarrow> prefix xs ys"
  by (induction xs ys rule: isPrefixOf.induct) auto

lemma isInfixOf_iff: "isInfixOf xs ys \<longleftrightarrow> sublist xs ys"
proof (induction ys)
  case Nil
  then show ?case by simp
next
  case (Cons y ys)
  then show ?case by (simp add: isPrefixOf_iff sublist_Cons_right)
qed

lemma splitBar_literal: "CHR ''|'' \<notin> set pat \<Longrightarrow> splitBar pat = [pat]"
  by (induction pat) auto

lemma newRegExp_literal:
  "list_all (\<lambda>c. c \<notin> set metaChars) pat \<Longrightarrow> newRegExp engine pat = Inr (RegExp [pat])"
proof -
  assume a: "list_all (\<lambda>c. c \<notin> set metaChars) pat"
  then have "CHR ''|'' \<notin> set pat" by (auto simp: list_all_iff metaChars_def)
  moreover have "list_all (\<lambda>c. c = CHR ''|'' \<or> c \<notin> set metaChars) pat"
    using a by (auto simp: list_all_iff)
  ultimately show ?thesis by (simp add: newRegExp_def splitBar_literal)
qed

lemma regExpTest_literal: "regExpTest (RegExp [pat]) str = containsIgnoringCase pat str"
  by (simp add: containsIgnoringCase_def isInfixOf_iff)

lemma regExpHit_literal: "regExpHit (RegExp [pat]) t = substringHit pat t"
  by (auto simp: regExpHit_def substringHit_def regExpTest_literal list_ex_iff
      simp del: regExpTest.simps split: option.splits)

lemma optionKeys_match:
  "list_all (matchesCond t) (optionKeys (optsOf q))
     \<longleftrightarrow> restrictedTo (q_status q) (status t) \<and> restrictedTo (q_priority q) (priority t)"
  by (auto simp: optionKeys_def optsOf_def truthy_def restrictedTo_def split: option.splits)

lemma search_query:
  "Task_find ([Or [CreatedByIs uid, AssignedToIs uid, IsPublicIs True],
               And [Or [TitleMatches re, DescriptionMatches re, TagsIn [re]]]]
              @ optionKeys (optsOf q)) s
     = filter (selectedBy uid q (regExpHit re)) (tasks s)"
  unfolding Task_find_def
  by (rule filter_cong [OF refl])
     (auto simp: optionKeys_match selectedBy_def visibleTo_def regExpHit_def
        simp del: regExpTest.simps split: option.splits)

lemma plain_query:
  "Task_find ([Or [CreatedByIs uid, AssignedToIs uid, IsPublicIs True]]
              @ optionKeys (optsOf q)) s
     = filter (selectedBy uid q (\<lambda>t. True)) (tasks s)"
  unfolding Task_find_def
  by (rule filter_cong [OF refl])
     (auto simp: optionKeys_match selectedBy_def visibleTo_def)

lemma findByUser_query:
  "findByUser uid (optsOf q) s
     = sortNewestFirst createdAt (filter (selectedBy uid q (\<lambda>t. True)) (tasks s))"
proof -
  have "[Or [CreatedByIs uid, AssignedToIs uid, IsPublicIs True]] @
        (if truthy (o_status (optsOf q)) then [StatusIs (the (o_status (optsOf q)))] else []) @
        (if truthy (o_priority (optsOf q)) then [PriorityIs (the (o_priority (optsOf q)))] else [])
        = [Or [CreatedByIs uid, AssignedToIs uid, IsPublicIs True]] @ optionKeys (optsOf q)"
    by (auto simp: optionKeys_def optsOf_def truthy_def split: option.splits)
  then show ?thesis
    by (simp only: findByUser_def Let_def plain_query)
qed

lemma getTasks_plain:
  "\<not> truthy (q_search q) \<Longrightarrow>
   getTasks engine u q s = taskPage s q (filter (selectedBy (u_id u) q (\<lambda>t. True)) (tasks s))"
  unfolding getTasks_def Let_def optsOf_def [symmetric] findByUser_query plain_query
    Task_countDocuments_def taskPage_def
  by (simp split: sum.splits)

lemma getTasks_search:
  "truthy (q_search q) \<Longrightarrow> newRegExp engine (the (q_search q)) = Inr re \<Longrightarrow>
   getTasks engine u q s
     = taskPage s q (filter (selectedBy (u_id u) q (regExpHit re)) (tasks s))"
  unfolding getTasks_def Let_def optsOf_def [symmetric] search_query
    Task_countDocuments_def taskPage_def
  by (simp split: sum.splits)

lemma getTasks_syntax_error:
  "truthy (q_search q) \<Longrightarrow> newRegExp engine (the (q_search q)) = Inl e \<Longrightarrow>
   getTasks engine u q s = (500, Message ''Server error'')"
  unfolding getTasks_def Let_def by simp

lemma paginationOf_parsed:
  "paginationOf \<lparr>page = parseIntOr qp 1, limit = parseIntOr ql 10, total = int n,
                 pages = ceilDiv (int n) (parseIntOr ql 10)\<rparr> qp ql n"
  by (simp add: paginationOf_def parseIntOr_default parseIntOr_nonzero ceilDiv_ceiling
      split: option.splits)

lemma taskPage_200:
  assumes "taskPage s q sel = (200, body)"
  shows "\<exists>pg. body = TaskPage (map (populate s) (pageSlice pg (sortNewestFirst createdAt sel))) pg \<and>
              paginationOf pg (q_page q) (q_limit q) (length sel)"
proof -
  let ?pg = "\<lparr>page = parseIntOr (q_page q) 1, limit = parseIntOr (q_limit q) 10,
              total = int (length sel),
              pages = ceilDiv (int (length sel)) (parseIntOr (q_limit q) 10)\<rparr>"
  from assms obtain found where
    f: "skipLimit ((parseIntOr (q_page q) 1 - 1) * parseIntOr (q_limit q) 10)
          (parseIntOr (q_limit q) 10) (sortNewestFirst createdAt sel) = Inr found"
    and b: "body = TaskPage (map (populate s) found) ?pg"
    by (auto simp: taskPage_def split: sum.splits)
  have "found = pageSlice ?pg (sortNewestFirst createdAt sel)"
    using skipLimit_Inr [OF f] by (simp add: pageSlice_def parseIntOr_nonzero)
  with b paginationOf_parsed [of "q_page q" "q_limit q" "length sel"] show ?thesis
    by blast
qed

lemma taskPage_ok:
  assumes "0 \<le> (parseIntOr (q_page q) 1 - 1) * parseIntOr (q_limit q) 10"
  shows "\<exists>pg. taskPage s q sel
             = (200, TaskPage (map (populate s) (pageSlice pg (sortNewestFirst createdAt sel))) pg) \<and>
           paginationOf pg (q_page q) (q_limit q) (length sel)"
proof -
  obtain body where "taskPage s q sel = (200, body)"
    using assms by (simp add: taskPage_def skipLimit_ok parseIntOr_nonzero)
  with taskPage_200 [of s q sel body] show ?thesis by auto
qed

lemma compiledHit_plain: "\<not> truthy (q_search q) \<Longrightarrow> compiledHit engine q = (\<lambda>t. True)"
  by (rule ext) (simp add: compiledHit_def)

lemma compiledHit_search:
  "truthy (q_search q) \<Longrightarrow> newRegExp engine (the (q_search q)) = Inr re \<Longrightarrow>
   compiledHit engine q = regExpHit re"
  by (rule ext) (simp add: compiledHit_def)

lemma getTasks_compiled:
  assumes "compiles engine (q_search q)"
  shows "getTasks engine u q s
           = taskPage s q (filter (selectedBy (u_id u) q (compiledHit engine q)) (tasks s))"
proof (cases "truthy (q_search q)")
  case False
  then show ?thesis by (simp add: getTasks_plain compiledHit_plain)
next
  case True
  with assms obtain re where re: "newRegExp engine (the (q_search q)) = Inr re"
    by (cases "newRegExp engine (the (q_search q))") (simp_all add: compiles_def)
  with True show ?thesis by (simp add: getTasks_search compiledHit_search)
qed

lemma getTasks_not_compiled:
  assumes "\<not> compiles engine (q_search q)"
  shows "getTasks engine u q s = (500, Message ''Server error'')"
proof -
  from assms have t: "truthy (q_search q)" by (auto simp: compiles_def split: if_splits)
  with assms obtain e where "newRegExp engine (the (q_search q)) = Inl e"
    by (cases "newRegExp engine (the (q_search q))") (simp_all add: compiles_def)
  with t show ?thesis by (rule getTasks_syntax_error)
qed

lemma substringHit_empty: "substringHit [] t"
  by (simp add: substringHit_def containsIgnoringCase_def toLowerCase_def)

lemma compiledHit_literal: "isLiteral (q_search q) \<Longrightarrow> compiledHit engine q = literalHit q"
proof (rule ext)
  fix t assume "isLiteral (q_search q)"
  then show "compiledHit engine q t = literalHit q t"
    by (cases "q_search q")
       (auto simp: compiledHit_def literalHit_def isLiteral_def truthy_def newRegExp_literal
          regExpHit_literal substringHit_empty)
qed

text \<open>
  C4, as amended. For an authenticated user, a search string without regular-expression
  metacharacters (or no search) and a non-negative skip, GET /api/tasks answers 200; the
  tasks selected are exactly those that are created by the user, assigned to the user
  or public, that have the status and the priority asked for when one is given, and,
  when a search is given, whose title, description or some tag contains the search
  string, letter case ignored; the response carries the page of the selection, newest
  first, that \<open>page\<close> and \<open>limit\<close> cut out, and the size of the selection as
  \<open>total\<close>.
\<close>

theorem getTasks_selection:
  assumes "isLiteral (q_search q)"
    and "0 \<le> (parseIntOr (q_page q) 1 - 1) * parseIntOr (q_limit q) 10"
  shows "\<exists>pg. getTasks engine u q s
           = (200, TaskPage (map (populate s) (pageSlice pg (sortNewestFirst createdAt
                      (filter (selectedBy (u_id u) q (literalHit q)) (tasks s))))) pg) \<and>
           paginationOf pg (q_page q) (q_limit q)
             (length (filter (selectedBy (u_id u) q (literalHit q)) (tasks s)))"
proof -
  let ?sel = "filter (selectedBy (u_id u) q (literalHit q)) (tasks s)"
  have "getTasks engine u q s = taskPage s q ?sel"
  proof (cases "truthy (q_search q)")
    case False
    then show ?thesis
      using compiledHit_literal [OF assms(1), of engine] compiledHit_plain [of q engine]
      by (simp add: getTasks_plain)
  next
    case True
    then obtain pat where pat: "q_search q = Some pat" by (auto simp: truthy_def split: option.splits)
    with assms(1) have re: "newRegExp engine (the (q_search q)) = Inr (RegExp [pat])"
      by (simp add: isLiteral_def newRegExp_literal)
    have "regExpHit (RegExp [pat]) = literalHit q"
      using compiledHit_search [OF True re] compiledHit_literal [OF assms(1), of engine] by simp
    with True re show ?thesis by (simp add: getTasks_search)
  qed
  with taskPage_ok [OF assms(2), of s ?sel] show ?thesis by simp
qed

lemma substringHit_code:
  "substringHit needle t =
     (isInfixOf (toLowerCase needle) (toLowerCase (title t)) \<or>
      (case description t of None \<Rightarrow> False
       | Some d \<Rightarrow> isInfixOf (toLowerCase needle) (toLowerCase d)) \<or>
      list_ex (\<lambda>tag. isInfixOf (toLowerCase needle) (toLowerCase tag)) (tags t))"
  by (auto simp: substringHit_def containsIgnoringCase_def isInfixOf_iff list_ex_iff
      split: option.splits)

theorem getTasks_selection_witness:
  "\<exists>pg. getTasks dotEngine alice (searchFor ''REPORT'') demoStore
      = (200, TaskPage (map (populate demoStore) (pageSlice pg (sortNewestFirst createdAt
                 (filter (selectedBy (u_id alice) (searchFor ''REPORT'')
                    (literalHit (searchFor ''REPORT''))) (tasks demoStore))))) pg) \<and>
      paginationOf pg None None
        (length (filter (selectedBy (u_id alice) (searchFor ''REPORT'')
                    (literalHit (searchFor ''REPORT''))) (tasks demoStore))) \<and>
      filter (selectedBy (u_id alice) (searchFor ''REPORT'')
                    (literalHit (searchFor ''REPORT''))) (tasks demoStore) = [reportTask]"
proof -
  have lit: "isLiteral (q_search (searchFor ''REPORT''))"
    by (simp add: isLiteral_def searchFor_def noQuery_def metaChars_def)
  have pg: "0 \<le> (parseIntOr (q_page (searchFor ''REPORT'')) 1 - 1)
              * parseIntOr (q_limit (searchFor ''REPORT'')) 10"
    by (simp add: searchFor_def noQuery_def parseIntOr_def)
  have q: "q_page (searchFor ''REPORT'') = None" "q_limit (searchFor ''REPORT'') = None"
    by (simp_all add: searchFor_def noQuery_def)
  have sel: "filter (selectedBy (u_id alice) (searchFor ''REPORT'')
                    (literalHit (searchFor ''REPORT''))) (tasks demoStore) = [reportTask]"
    unfolding selectedBy_def literalHit_def substringHit_code by code_simp
  from getTasks_selection [OF lit pg, of dotEngine alice demoStore] q sel show ?thesis
    by simp
qed

text \<open>
  The claim as stated fails for a search string with a metacharacter, which the route
  compiles as a regular expression: the search \<^verbatim>\<open>report|budget\<close> returns both tasks
  of the store, and neither contains that string.
\<close>

theorem search_is_regexp_counterexample:
  "getTasks dotEngine alice (searchFor ''report|budget'') demoStore
     = (200, TaskPage (map (populate demoStore) [reviewTask, reportTask])
                    \<lparr>page = 1, limit = 10, total = 2, pages = 1\<rparr>) \<and>
   \<not> substringHit ''report|budget'' reportTask \<and>
   \<not> substringHit ''report|budget'' reviewTask"
proof -
  have "getTasks dotEngine alice (searchFor ''report|budget'') demoStore
     = (200, TaskPage (map (populate demoStore) [reviewTask, reportTask])
                    \<lparr>page = 1, limit = 10, total = 2, pages = 1\<rparr>)"
    by code_simp
  moreover have "\<not> substringHit ''report|budget'' reportTask"
    unfolding substringHit_code by code_simp
  moreover have "\<not> substringHit ''report|budget'' reviewTask"
    unfolding substringHit_code by code_simp
  ultimately show ?thesis by simp
qed

subsection \<open>Pagination\<close>

lemma taskPage_failed:
  "\<not> 0 \<le> skipOf (q_page q) (q_limit q) \<Longrightarrow> taskPage s q sel = (500, Message ''Server error'')"
  by (simp add: taskPage_def skipLimit_def skipOf_def)

lemma getPublicTasks_ok:
  assumes "0 \<le> skipOf (q_page q) (q_limit q)"
  shows "\<exists>pg. getPublicTasks q s
            = (200, PublicTaskPage (map (populatePublic s)
                  (pageSlice pg (sortNewestFirst createdAt (filter isPublic (tasks s))))) pg) \<and>
            paginationOf pg (q_page q) (q_limit q) (length (filter isPublic (tasks s)))"
proof -
  let ?sel = "filter isPublic (tasks s)"
  let ?pg = "\<lparr>page = parseIntOr (q_page q) 1, limit = parseIntOr (q_limit q) 10,
              total = int (length ?sel),
              pages = ceilDiv (int (length ?sel)) (parseIntOr (q_limit q) 10)\<rparr>"
  have sel: "Task_find [IsPublicIs True] s = ?sel" by (simp add: Task_find_def)
  have "getPublicTasks q s
          = (200, PublicTaskPage (map (populatePublic s)
               (pageSlice ?pg (sortNewestFirst createdAt ?sel))) ?pg)"
    using assms
    by (simp add: getPublicTasks_def Let_def sel Task_countDocuments_def skipLimit_ok
        parseIntOr_nonzero pageSlice_def skipOf_def)
  with paginationOf_parsed [of "q_page q" "q_limit q" "length ?sel"] show ?thesis
    by blast
qed

lemma getPublicTasks_failed:
  "\<not> 0 \<le> skipOf (q_page q) (q_limit q) \<Longrightarrow>
   getPublicTasks q s = (500, Message ''Server error'')"
  by (simp add: getPublicTasks_def Let_def skipLimit_def skipOf_def)

lemma getUsers_ok:
  assumes "0 \<le> skipOf (uq_page q) (uq_limit q)"
  shows "\<exists>pg. getUsers deps q s
            = (200, UserPage (map (getPublicProfile deps)
                  (pageSlice pg (sortNewestFirst d_createdAt
                     (map selectWithoutPassword (users s))))) pg) \<and>
            paginationOf pg (uq_page q) (uq_limit q) (length (users s))"
proof -
  let ?all = "sortNewestFirst d_createdAt (map selectWithoutPassword (users s))"
  let ?pg = "\<lparr>page = parseIntOr (uq_page q) 1, limit = parseIntOr (uq_limit q) 10,
              total = int (length (users s)),
              pages = ceilDiv (int (length (users s))) (parseIntOr (uq_limit q) 10)\<rparr>"
  have "getUsers deps q s = (200, UserPage (map (getPublicProfile deps) (pageSlice ?pg ?all)) ?pg)"
    using assms
    by (simp add: getUsers_def Let_def skipLimit_ok parseIntOr_nonzero pageSlice_def skipOf_def)
  with paginationOf_parsed [of "uq_page q" "uq_limit q" "length (users s)"] show ?thesis
    by blast
qed

lemma getUsers_failed:
  "\<not> 0 \<le> skipOf (uq_page q) (uq_limit q) \<Longrightarrow>
   getUsers deps q s = (500, UserMessage ''Server error'')"
  by (simp add: getUsers_def Let_def skipLimit_def skipOf_def)

lemma findOr_search:
  "User_findOr [UsernameMatches re, EmailMatches re] s = filter (userHit re) (users s)"
  unfolding User_findOr_def by (rule filter_cong) (simp_all add: userHit_def)

lemma searchUsers_ok:
  assumes "newRegExp engine pat = Inr re" and "0 \<le> skipOf (uq_page q) (uq_limit q)"
  shows "\<exists>pg. searchUsers deps engine pat q s
            = (200, UserPage (map (getPublicProfile deps)
                  (pageSlice pg (sortNewestFirst d_createdAt (map selectWithoutPassword
                     (filter (userHit re) (users s)))))) pg) \<and>
            paginationOf pg (uq_page q) (uq_limit q) (length (filter (userHit re) (users s)))"
proof -
  let ?sel = "filter (userHit re) (users s)"
  let ?all = "sortNewestFirst d_createdAt (map selectWithoutPassword ?sel)"
  let ?pg = "\<lparr>page = parseIntOr (uq_page q) 1, limit = parseIntOr (uq_limit q) 10,
              total = int (length ?sel),
              pages = ceilDiv (int (length ?sel)) (parseIntOr (uq_limit q) 10)\<rparr>"
  have "searchUsers deps engine pat q s
          = (200, UserPage (map (getPublicProfile deps) (pageSlice ?pg ?all)) ?pg)"
    using assms
    by (simp add: searchUsers_def Let_def findOr_search skipLimit_ok parseIntOr_nonzero
        pageSlice_def skipOf_def)
  with paginationOf_parsed [of "uq_page q" "uq_limit q" "length ?sel"] show ?thesis
    by blast
qed

lemma searchUsers_failed:
  "newRegExp engine pat = Inl e \<Longrightarrow>
   searchUsers deps engine pat q s = (500, UserMessage ''Server error'')"
  "newRegExp engine pat = Inr re \<Longrightarrow> \<not> 0 \<le> skipOf (uq_page q) (uq_limit q) \<Longrightarrow>
   searchUsers deps engine pat q s = (500, UserMessage ''Server error'')"
  by (simp_all add: searchUsers_def Let_def skipLimit_def skipOf_def)

lemma getTasks_ok:
  assumes "compiles engine (q_search q)" and "0 \<le> skipOf (q_page q) (q_limit q)"
  shows "\<exists>pg. getTasks engine u q s
            = (200, TaskPage (map (populate s) (pageSlice pg (sortNewestFirst createdAt
                 (filter (selectedBy (u_id u) q (compiledHit engine q)) (tasks s))))) pg) \<and>
            paginationOf pg (q_page q) (q_limit q)
              (length (filter (selectedBy (u_id u) q (compiledHit engine q)) (tasks s)))"
  using taskPage_ok [of q s "filter (selectedBy (u_id u) q (compiledHit engine q)) (tasks s)"]
    assms(2) getTasks_compiled [OF assms(1), of u s]
  by (simp add: skipOf_def)

lemma getTasks_failed:
  assumes "\<not> (compiles engine (q_search q) \<and> 0 \<le> skipOf (q_page q) (q_limit q))"
  shows "getTasks engine u q s = (500, Message ''Server error'')"
proof (cases "compiles engine (q_search q)")
  case True
  with assms have "\<not> 0 \<le> skipOf (q_page q) (q_limit q)" by simp
  then show ?thesis by (simp add: getTasks_compiled [OF True] taskPage_failed)
next
  case False
  then show ?thesis by (rule getTasks_not_compiled)
qed

text \<open>
  C6. Every list route (the tasks of a user, the public tasks, the users, the user
  search) answers a request with 200, the page of documents and a pagination object,
  unless the search pattern does not compile or the skip \<open>(page - 1) * limit\<close> is
  negative, and then with 500. In the pagination object \<open>page\<close> and \<open>limit\<close> are
  the parsed query parameters, 1 and 10 when omitted; \<open>total\<close> is the number of
  documents the route's filter matches, of which the documents returned are the page;
  \<open>pages\<close> is the ceiling of \<open>total / limit\<close>.
\<close>

theorem list_pagination:
  "(compiles engine (q_search q) \<and> 0 \<le> skipOf (q_page q) (q_limit q) \<longrightarrow>
      (\<exists>pg. getTasks engine u q s
            = (200, TaskPage (map (populate s) (pageSlice pg (sortNewestFirst createdAt
                 (filter (selectedBy (u_id u) q (compiledHit engine q)) (tasks s))))) pg) \<and>
            paginationOf pg (q_page q) (q_limit q)
              (length (filter (selectedBy (u_id u) q (compiledHit engine q)) (tasks s))))) \<and>
   (\<not> (compiles engine (q_search q) \<and> 0 \<le> skipOf (q_page q) (q_limit q)) \<longrightarrow>
      getTasks engine u q s = (500, Message ''Server error'')) \<and>
   (0 \<le> skipOf (q_page q) (q_limit q) \<longrightarrow>
      (\<exists>pg. getPublicTasks q s
            = (200, PublicTaskPage (map (populatePublic s)
                  (pageSlice pg (sortNewestFirst createdAt (filter isPublic (tasks s))))) pg) \<and>
            paginationOf pg (q_page q) (q_limit q) (length (filter isPublic (tasks s))))) \<and>
   (\<not> 0 \<le> skipOf (q_page q) (q_limit q) \<longrightarrow>
      getPublicTasks q s = (500, Message ''Server error'')) \<and>
   (0 \<le> skipOf (uq_page uq) (uq_limit uq) \<longrightarrow>
      (\<exists>pg. getUsers deps uq s
            = (200, UserPage (map (getPublicProfile deps)
                  (pageSlice pg (sortNewestFirst d_createdAt
                     (map selectWithoutPassword (users s))))) pg) \<and>
            paginationOf pg (uq_page uq) (uq_limit uq) (length (users s)))) \<and>
   (\<not> 0 \<le> skipOf (uq_page uq) (uq_limit uq) \<longrightarrow>
      getUsers deps uq s = (500, UserMessage ''Server error'')) \<and>
   (case newRegExp engine pat of
      Inl e \<Rightarrow> searchUsers deps engine pat uq s = (500, UserMessage ''Server error'')
    | Inr re \<Rightarrow>
        (0 \<le> skipOf (uq_page uq) (uq_limit uq) \<longrightarrow>
           (\<exists>pg. searchUsers deps engine pat uq s
                 = (200, UserPage (map (getPublicProfile deps)
                      (pageSlice pg (sortNewestFirst d_createdAt (map selectWithoutPassword
                         (filter (userHit re) (users s)))))) pg) \<and>
                 paginationOf pg (uq_page uq) (uq_limit uq)
                   (length (filter (userHit re) (users s))))) \<and>
        (\<not> 0 \<le> skipOf (uq_page uq) (uq_limit uq) \<longrightarrow>
           searchUsers deps engine pat uq s = (500, UserMessage ''Server error'')))"
proof (intro conjI)
  show "compiles engine (q_search q) \<and> 0 \<le> skipOf (q_page q) (q_limit q) \<longrightarrow>
      (\<exists>pg. getTasks engine u q s
            = (200, TaskPage (map (populate s) (pageSlice pg (sortNewestFirst createdAt
                 (filter (selectedBy (u_id u) q (compiledHit engine q)) (tasks s))))) pg) \<and>
            paginationOf pg (q_page q) (q_limit q)
              (length (filter (selectedBy (u_id u) q (compiledHit engine q)) (tasks s))))"
    using getTasks_ok [of engine q u s] by blast
  show "\<not> (compiles engine (q_search q) \<and> 0 \<le> skipOf (q_page q) (q_limit q)) \<longrightarrow>
      getTasks engine u q s = (500, Message ''Server error'')"
    using getTasks_failed [of engine q u s] by blast
  show "0 \<le> skipOf (q_page q) (q_limit q) \<longrightarrow>
      (\<exists>pg. getPublicTasks q s
            = (200, PublicTaskPage (map (populatePublic s)
                  (pageSlice pg (sortNewestFirst createdAt (filter isPublic (tasks s))))) pg) \<and>
            paginationOf pg (q_page q) (q_limit q) (length (filter isPublic (tasks s))))"
    using getPublicTasks_ok [of q s] by blast
  show "\<not> 0 \<le> skipOf (q_page q) (q_limit q) \<longrightarrow>
      getPublicTasks q s = (500, Message ''Server error'')"
    using getPublicTasks_failed [of q s] by blast
  show "0 \<le> skipOf (uq_page uq) (uq_limit uq) \<longrightarrow>
      (\<exists>pg. getUsers deps uq s
            = (200, UserPage (map (getPublicProfile deps)
                  (pageSlice pg (sortNewestFirst d_createdAt
                     (map selectWithoutPassword (users s))))) pg) \<and>
            paginationOf pg (uq_page uq) (uq_limit uq) (length (users s)))"
    using getUsers_ok [of uq deps s] by blast
  show "\<not> 0 \<le> skipOf (uq_page uq) (uq_limit uq) \<longrightarrow>
      getUsers deps uq s = (500, UserMessage ''Server error'')"
    using getUsers_failed [of uq deps s] by blast
  show "case newRegExp engine pat of
      Inl e \<Rightarrow> searchUsers deps engine pat uq s = (500, UserMessage ''Server error'')
    | Inr re \<Rightarrow>
        (0 \<le> skipOf (uq_page uq) (uq_limit uq) \<longrightarrow>
           (\<exists>pg. searchUsers deps engine pat uq s
                 = (200, UserPage (map (getPublicProfile deps)
                      (pageSlice pg (sortNewestFirst d_createdAt (map selectWithoutPassword
                         (filter (userHit re) (users s)))))) pg) \<and>
                 paginationOf pg (uq_page uq) (uq_limit uq)
                   (length (filter (userHit re) (users s))))) \<and>
        (\<not> 0 \<le> skipOf (uq_page uq) (uq_limit uq) \<longrightarrow>
           searchUsers deps engine pat uq s = (500, UserMessage ''Server error''))"
  proof (cases "newRegExp engine pat")
    case (Inl e)
    then show ?thesis by (simp add: searchUsers_failed(1))
  next
    case (Inr re)
    then show ?thesis
      using searchUsers_ok [OF Inr, of uq deps s] searchUsers_failed(2) [OF Inr, of uq deps s]
      by simp
  qed
qed

lemma paginationOf_default:
  "paginationOf pg None None n \<Longrightarrow>
   page pg = 1 \<and> limit pg = 10 \<and> total pg = int n \<and> pages pg = - ((- int n) div 10)"
  using ceilDiv_ceiling [of "int n" 10] by (simp add: paginationOf_def ceilDiv_def)

theorem list_pagination_witness:
  "(\<exists>found pg. getTasks dotEngine alice noQuery boardStore = (200, TaskPage found pg) \<and>
      page pg = 1 \<and> limit pg = 10 \<and> total pg = 3 \<and> pages pg = 1) \<and>
   (\<exists>found pg. getPublicTasks noQuery boardStore = (200, PublicTaskPage found pg) \<and>
      page pg = 1 \<and> limit pg = 10 \<and> total pg = 1 \<and> pages pg = 1) \<and>
   (\<exists>found pg. getUsers demoDeps noUserQuery boardStore = (200, UserPage found pg) \<and>
      page pg = 1 \<and> limit pg = 10 \<and> total pg = 3 \<and> pages pg = 1) \<and>
   (\<exists>found pg. searchUsers demoDeps dotEngine ''b.b'' noUserQuery boardStore
        = (200, UserPage found pg) \<and>
      page pg = 1 \<and> limit pg = 10 \<and> total pg = 1 \<and> pages pg = 1) \<and>
   getUsers demoDeps pageMinusOne boardStore = (500, UserMessage ''Server error'') \<and>
   searchUsers demoDeps dotEngine ''b(b'' noUserQuery boardStore
     = (500, UserMessage ''Server error'')"
proof -
  have q: "q_page noQuery = None" "q_limit noQuery = None"
    "uq_page noUserQuery = None" "uq_limit noUserQuery = None"
    by (simp_all add: noQuery_def noUserQuery_def)
  have sk: "0 \<le> skipOf None None" by (simp add: skipOf_def parseIntOr_def)
  have neg: "\<not> 0 \<le> skipOf (uq_page pageMinusOne) (uq_limit pageMinusOne)" by code_simp
  have cp: "compiles dotEngine (q_search noQuery)"
    by (simp add: compiles_def noQuery_def truthy_def)
  have re: "newRegExp dotEngine ''b.b'' = Inr (Native (matchesSomewhere ''b.b''))"
    by (simp add: newRegExp_def dotEngine_def metaChars_def)
  have bad: "newRegExp dotEngine ''b(b'' = Inl SyntaxError"
    by (simp add: newRegExp_def dotEngine_def metaChars_def)
  have n1: "length (filter (selectedBy (u_id alice) noQuery (compiledHit dotEngine noQuery))
              (tasks boardStore)) = 3"
    by code_simp
  have n2: "length (filter isPublic (tasks boardStore)) = 1" by code_simp
  have n3: "length (users boardStore) = 3" by code_simp
  have n4: "length (filter (userHit (Native (matchesSomewhere ''b.b''))) (users boardStore)) = 1"
    by code_simp
  note th = list_pagination [where engine = dotEngine and u = alice and q = noQuery
      and s = boardStore and deps = demoDeps]
  have c1: "\<exists>found pg. getTasks dotEngine alice noQuery boardStore = (200, TaskPage found pg) \<and>
      page pg = 1 \<and> limit pg = 10 \<and> total pg = 3 \<and> pages pg = 1"
  proof -
    from th [where uq = noUserQuery and pat = "''b.b''"] cp sk obtain pg where
      "getTasks dotEngine alice noQuery boardStore
         = (200, TaskPage (map (populate boardStore) (pageSlice pg (sortNewestFirst createdAt
              (filter (selectedBy (u_id alice) noQuery (compiledHit dotEngine noQuery))
                 (tasks boardStore))))) pg)"
      "paginationOf pg None None 3"
      unfolding q n1 by blast
    then show ?thesis using paginationOf_default [of pg 3] by auto
  qed
  have c2: "\<exists>found pg. getPublicTasks noQuery boardStore = (200, PublicTaskPage found pg) \<and>
      page pg = 1 \<and> limit pg = 10 \<and> total pg = 1 \<and> pages pg = 1"
  proof -
    from th [where uq = noUserQuery and pat = "''b.b''"] sk obtain pg where
      "getPublicTasks noQuery boardStore
         = (200, PublicTaskPage (map (populatePublic boardStore)
              (pageSlice pg (sortNewestFirst createdAt (filter isPublic (tasks boardStore))))) pg)"
      "paginationOf pg None None 1"
      unfolding q n2 by blast
    then show ?thesis using paginationOf_default [of pg 1] by auto
  qed
  have c3: "\<exists>found pg. getUsers demoDeps noUserQuery boardStore = (200, UserPage found pg) \<and>
      page pg = 1 \<and> limit pg = 10 \<and> total pg = 3 \<and> pages pg = 1"
  proof -
    from th [where uq = noUserQuery and pat = "''b.b''"] sk obtain pg where
      "getUsers demoDeps noUserQuery boardStore
         = (200, UserPage (map (getPublicProfile demoDeps)
              (pageSlice pg (sortNewestFirst d_createdAt
                 (map selectWithoutPassword (users boardStore))))) pg)"
      "paginationOf pg None None 3"
      unfolding q n3 by blast
    then show ?thesis using paginationOf_default [of pg 3] by auto
  qed
  have c4: "\<exists>found pg. searchUsers demoDeps dotEngine ''b.b'' noUserQuery boardStore
        = (200, UserPage found pg) \<and>
      page pg = 1 \<and> limit pg = 10 \<and> total pg = 1 \<and> pages pg = 1"
  proof -
    note t4 = th [where uq = noUserQuery and pat = "''b.b''", unfolded q re sum.case n4]
    from t4 sk obtain pg where
      "searchUsers demoDeps dotEngine ''b.b'' noUserQuery boardStore
         = (200, UserPage (map (getPublicProfile demoDeps)
              (pageSlice pg (sortNewestFirst d_createdAt (map selectWithoutPassword
                 (filter (userHit (Native (matchesSomewhere ''b.b''))) (users boardStore)))))) pg)"
      "paginationOf pg None None 1"
      by blast
    then show ?thesis using paginationOf_default [of pg 1] by auto
  qed
  have c5: "getUsers demoDeps pageMinusOne boardStore = (500, UserMessage ''Server error'')"
    using th [where uq = pageMinusOne and pat = "''b.b''"] neg by blast
  have c6: "searchUsers demoDeps dotEngine ''b(b'' noUserQuery boardStore
     = (500, UserMessage ''Server error'')"
    using th [where uq = noUserQuery and pat = "''b(b''", unfolded bad sum.case] by blast
  from c1 c2 c3 c4 c5 c6 show ?thesis by blast
qed

end
